theory Spec2Isabelle
  imports Main "HOL-Library.AList" "HOL-Library.Char_ord" "HOL-Library.List_Lexorder"
    "HOL-Library.Multiset"
begin

section \<open>Paths\<close>

text \<open>
  The checkpoint operations of \<^verbatim>\<open>LibvirtService\<close> build and compare
  \<^verbatim>\<open>pathlib.Path\<close> values. A path is its root (empty for a relative path,
  one slash, or exactly two slashes, which POSIX keeps apart) and its list of components.
  Parsing a string splits it at the slashes and drops the empty components and the
  components that are a single dot; \<^verbatim>\<open>..\<close> is kept. Two paths are equal when
  root and components are: pathlib compares paths as written, and so does the model (links
  and \<^verbatim>\<open>..\<close> are not resolved).
\<close>

datatype path = Path (root: string) (parts: "string list")

definition is_slash :: "char \<Rightarrow> bool" where
  "is_slash c = (c = CHR ''/'')"

text \<open>\<^verbatim>\<open>s.split("/")\<close>: a character that is no slash goes in front of the first
  piece of the rest.\<close>

fun cons_char :: "char \<Rightarrow> string list \<Rightarrow> string list" where
  "cons_char c [] = [[c]]"
| "cons_char c (w # ws) = (c # w) # ws"

fun split_slash :: "string \<Rightarrow> string list" where
  "split_slash [] = [[]]"
| "split_slash (c # cs) =
     (if is_slash c then [] # split_slash cs else cons_char c (split_slash cs))"

definition root_of :: "string \<Rightarrow> string" where
  "root_of s =
     (let k = length (takeWhile is_slash s)
      in if k = 0 then [] else if k = 2 then ''//'' else ''/'')"

definition part_ok :: "string \<Rightarrow> bool" where
  "part_ok w = (w \<noteq> [] \<and> w \<noteq> ''.'')"

definition path_of :: "string \<Rightarrow> path" where
  "path_of s = Path (root_of s) (filter part_ok (split_slash s))"

text \<open>\<^verbatim>\<open>p / s\<close>: an absolute right operand replaces the left one.\<close>

definition joinpath :: "path \<Rightarrow> string \<Rightarrow> path" where
  "joinpath p s =
     (let q = path_of s
      in if root q \<noteq> [] then q else Path (root p) (parts p @ parts q))"

fun join_slash :: "string list \<Rightarrow> string" where
  "join_slash [] = []"
| "join_slash [w] = w"
| "join_slash (w # ws) = w @ ''/'' @ join_slash ws"

text \<open>\<^verbatim>\<open>str(p)\<close>; the empty relative path prints as a dot.\<close>

definition path_str :: "path \<Rightarrow> string" where
  "path_str p =
     (if root p = [] \<and> parts p = [] then ''.'' else root p @ join_slash (parts p))"

text \<open>\<^verbatim>\<open>p.parent\<close>; a path without components is its own parent.\<close>

definition parent :: "path \<Rightarrow> path" where
  "parent p = Path (root p) (butlast (parts p))"

text \<open>\<^verbatim>\<open>p.name\<close> and \<^verbatim>\<open>p.stem\<close>: the stem cuts the last suffix, unless the
  last dot is the first or the last character of the name.\<close>

definition name_of :: "path \<Rightarrow> string" where
  "name_of p = (if parts p = [] then [] else last (parts p))"

definition stem_of :: "string \<Rightarrow> string" where
  "stem_of n =
     (if CHR ''.'' \<in> set n then
        (let k = length (takeWhile (\<lambda>c. c \<noteq> CHR ''.'') (rev n));
             i = length n - k - 1
         in if 0 < i \<and> 0 < k then take i n else n)
      else n)"

definition stem :: "path \<Rightarrow> string" where
  "stem p = stem_of (name_of p)"

definition ends_with :: "string \<Rightarrow> string \<Rightarrow> bool" where
  "ends_with suf s = (take (length suf) (rev s) = rev suf)"

text \<open>The constants of \<^verbatim>\<open>config.py\<close>.\<close>

definition VM_DIR :: path where
  "VM_DIR = path_of ''/var/lib/libvirt/images/vms''"

definition DISK_DIR :: path where
  "DISK_DIR = joinpath VM_DIR ''disks''"

definition checkpoint_dir_of :: "string \<Rightarrow> path" where
  "checkpoint_dir_of vm_name = joinpath (joinpath DISK_DIR ''checkpoints'') vm_name"

section \<open>The world: files and VM definitions\<close>

text \<open>
  A file holds raw bytes, or the JSON text of an object whose values are strings, which
  is what \<^verbatim>\<open>json.dump\<close> writes here and \<^verbatim>\<open>json.load\<close> reads back.
  Raw bytes do not parse: \<^verbatim>\<open>json.load\<close> raises \<^verbatim>\<open>JSONDecodeError\<close>
  on them. The file system is an association list from paths to contents, its order
  standing for the order in which a directory is enumerated. Only regular files are
  tracked; a directory exists for sure when a tracked file lies directly in it.
\<close>

datatype content = Blob string | JsonObj "(string \<times> string) list"

type_synonym filesystem = "(path \<times> content) list"

text \<open>
  Of a domain's XML the operations read the name, the uuid and the first
  \<^verbatim>\<open>source\<close> element of a disk with \<^verbatim>\<open>device='disk'\<close>, which may be
  missing, and whose \<^verbatim>\<open>file\<close> attribute may be missing.
\<close>

type_synonym source_elem = "string option"

record domxml =
  xname :: string
  xuuid :: "string option"
  xsource :: "source_elem option"

text \<open>
  A domain has a persistent definition (used at the next boot) and, while it runs, a
  live one. \<^verbatim>\<open>XMLDesc()\<close> without flags describes the live definition of a running
  domain; with \<^verbatim>\<open>VIR_DOMAIN_XML_INACTIVE\<close> it describes the persistent one.
\<close>

record domain =
  persistent :: domxml
  live :: "domxml option"

record world =
  files :: filesystem
  domains :: "string \<Rightarrow> domain option"

definition XMLDesc :: "domain \<Rightarrow> domxml" where
  "XMLDesc d = (case live d of Some x \<Rightarrow> x | None \<Rightarrow> persistent d)"

definition XMLDesc_INACTIVE :: "domain \<Rightarrow> domxml" where
  "XMLDesc_INACTIVE d = persistent d"

text \<open>\<^verbatim>\<open>disk_elem.get("file", "")\<close>\<close>

definition get_file :: "source_elem \<Rightarrow> string" where
  "get_file e = (case e of Some s \<Rightarrow> s | None \<Rightarrow> [])"

text \<open>\<^verbatim>\<open>metadata.get(key, default)\<close>\<close>

definition dict_get :: "(string \<times> string) list \<Rightarrow> string \<Rightarrow> string \<Rightarrow> string" where
  "dict_get m k dflt = (case map_of m k of Some v \<Rightarrow> v | None \<Rightarrow> dflt)"

subsection \<open>Outcomes of the library calls\<close>

text \<open>
  What a call into the operating system or into libvirt does for reasons outside the
  model (permissions, a full disk, a lost connection to the hypervisor) is given by an
  environment, one per operation. A copy or a write that fails may leave nothing, or a
  truncated file. \<^verbatim>\<open>defineXML\<close> of libvirt's Python binding returns the domain or
  raises \<^verbatim>\<open>libvirtError\<close>; a return of \<^verbatim>\<open>None\<close> is the case
  \<^verbatim>\<open>separate_checkpoint_to_vm\<close> tests for. The two readings of the clock are the
  strings \<^verbatim>\<open>strftime('%Y%m%d-%H%M%S')\<close> and \<^verbatim>\<open>isoformat()\<close> return.
\<close>

datatype io_result = Completes | Fails "string option"

datatype define_result = Defined | Returns_None | Raises_libvirtError

record env =
  mkdir_ok :: bool
  copy_result :: io_result
  write_result :: io_result
  define_outcome :: define_result
  unlink_ok :: "path \<Rightarrow> bool"
  rename_ok :: "path \<Rightarrow> path \<Rightarrow> bool"
  now_stamp :: string
  now_iso :: string

text \<open>\<^verbatim>\<open>p.exists()\<close>, for the regular files the model tracks; and whether a
  directory is known to exist.\<close>

definition path_exists :: "filesystem \<Rightarrow> path \<Rightarrow> bool" where
  "path_exists fs p = (map_of fs p \<noteq> None)"

definition dir_exists :: "filesystem \<Rightarrow> path \<Rightarrow> bool" where
  "dir_exists fs d = list_ex (\<lambda>(p, c). parts p \<noteq> [] \<and> parent p = d) fs"

text \<open>\<^verbatim>\<open>d.mkdir(parents=True, exist_ok=True)\<close>: nothing to do, and nothing to fail,
  when the directory exists. The result is whether the call returned.\<close>

definition mkdir_parents :: "env \<Rightarrow> filesystem \<Rightarrow> path \<Rightarrow> bool" where
  "mkdir_parents e fs d = (dir_exists fs d \<or> mkdir_ok e)"

text \<open>\<^verbatim>\<open>shutil.copy2(src, dst)\<close>: the flag is whether the call returned.\<close>

definition copy2 :: "io_result \<Rightarrow> filesystem \<Rightarrow> path \<Rightarrow> path \<Rightarrow> bool \<times> filesystem" where
  "copy2 outcome fs src dst =
     (case map_of fs src of
        None \<Rightarrow> (False, fs)
      | Some c \<Rightarrow>
          if src = dst then (False, fs)
          else (case outcome of
                  Completes \<Rightarrow> (True, AList.update dst c fs)
                | Fails None \<Rightarrow> (False, fs)
                | Fails (Some bytes) \<Rightarrow> (False, AList.update dst (Blob bytes) fs)))"

text \<open>\<^verbatim>\<open>with open(f, "w") as h: json.dump(metadata, h, indent=2)\<close>\<close>

definition write_json ::
  "io_result \<Rightarrow> filesystem \<Rightarrow> path \<Rightarrow> (string \<times> string) list \<Rightarrow> bool \<times> filesystem" where
  "write_json outcome fs f metadata =
     (case outcome of
        Completes \<Rightarrow> (True, AList.update f (JsonObj metadata) fs)
      | Fails None \<Rightarrow> (False, fs)
      | Fails (Some bytes) \<Rightarrow> (False, AList.update f (Blob bytes) fs))"

text \<open>\<^verbatim>\<open>p.unlink()\<close> and \<^verbatim>\<open>src.rename(dst)\<close>: \<open>None\<close> when the call raises.\<close>

definition unlink :: "env \<Rightarrow> filesystem \<Rightarrow> path \<Rightarrow> filesystem option" where
  "unlink e fs p =
     (if map_of fs p = None \<or> \<not> unlink_ok e p then None else Some (AList.delete p fs))"

definition rename :: "env \<Rightarrow> filesystem \<Rightarrow> path \<Rightarrow> path \<Rightarrow> filesystem option" where
  "rename e fs src dst =
     (case map_of fs src of
        None \<Rightarrow> None
      | Some c \<Rightarrow>
          if rename_ok e src dst then Some (AList.update dst c (AList.delete src fs))
          else None)"

text \<open>
  \<^verbatim>\<open>conn.defineXML(xml)\<close>: \<open>None\<close> when it raises; otherwise whether a domain was
  returned, and the domains afterwards. Defining a name that exists replaces its
  persistent definition and leaves the live one.
\<close>

definition defineXML ::
  "env \<Rightarrow> (string \<Rightarrow> domain option) \<Rightarrow> domxml \<Rightarrow> (bool \<times> (string \<Rightarrow> domain option)) option" where
  "defineXML e doms xml =
     (case define_outcome e of
        Raises_libvirtError \<Rightarrow> None
      | Returns_None \<Rightarrow> Some (False, doms)
      | Defined \<Rightarrow>
          Some (True,
            doms(xname xml \<mapsto>
              (case doms (xname xml) of
                 None \<Rightarrow> \<lparr>persistent = xml, live = None\<rparr>
               | Some d \<Rightarrow> d\<lparr>persistent := xml\<rparr>))))"

section \<open>The checkpoint operations of \<^verbatim>\<open>LibvirtService\<close>\<close>

text \<open>
  Each operation returns its boolean and the world it leaves. Every \<^verbatim>\<open>return False\<close>
  of the source, and every exception that its \<^verbatim>\<open>except\<close> clause turns into
  \<^verbatim>\<open>return False\<close>, is a branch ending in \<open>False\<close> with the world as it was
  at that point. \<^verbatim>\<open>lookupByName\<close> raises when the domain is not defined.
\<close>

definition create_checkpoint ::
  "env \<Rightarrow> world \<Rightarrow> string \<Rightarrow> string \<Rightarrow> string \<Rightarrow> bool \<times> world" where
  "create_checkpoint e w vm_name checkpoint_name description =
     (case domains w vm_name of
        None \<Rightarrow> (False, w)
      | Some domain \<Rightarrow>
          (case xsource (XMLDesc domain) of
             None \<Rightarrow> (False, w)
           | Some disk_elem \<Rightarrow>
               let disk_path = path_of (get_file disk_elem) in
               if \<not> path_exists (files w) disk_path then (False, w)
               else
                 let checkpoint_dir = checkpoint_dir_of vm_name in
                 if \<not> mkdir_parents e (files w) checkpoint_dir then (False, w)
                 else
                   let checkpoint_disk = joinpath checkpoint_dir (checkpoint_name @ ''.qcow2'') in
                   if path_exists (files w) checkpoint_disk then (False, w)
                   else
                     (case copy2 (copy_result e) (files w) disk_path checkpoint_disk of
                        (False, fs1) \<Rightarrow> (False, w\<lparr>files := fs1\<rparr>)
                      | (True, fs1) \<Rightarrow>
                          let metadata =
                                [(''name'', checkpoint_name),
                                 (''description'', description),
                                 (''created'', now_iso e),
                                 (''original_disk'', path_str disk_path),
                                 (''vm_name'', vm_name)];
                              metadata_file = joinpath checkpoint_dir (checkpoint_name @ ''.json'')
                          in (case write_json (write_result e) fs1 metadata_file metadata of
                                (ok, fs2) \<Rightarrow> (ok, w\<lparr>files := fs2\<rparr>)))))"

text \<open>
  \<^verbatim>\<open>checkpoint_dir.glob("*.json")\<close>: the files directly in the directory whose name
  ends in \<^verbatim>\<open>.json\<close>.
\<close>

definition glob_json :: "filesystem \<Rightarrow> path \<Rightarrow> filesystem" where
  "glob_json fs d =
     filter (\<lambda>(p, c). parts p \<noteq> [] \<and> parent p = d \<and> ends_with ''.json'' (name_of p)) fs"

text \<open>
  The body of the loop of \<^verbatim>\<open>list_checkpoints\<close>: \<open>None\<close> for a file that is
  skipped. \<open>reformat\<close> is \<^verbatim>\<open>datetime.fromisoformat(created).strftime(...)\<close>,
  \<open>None\<close> where it raises \<^verbatim>\<open>ValueError\<close>.
\<close>

definition checkpoint_entry ::
  "(string \<Rightarrow> string option) \<Rightarrow> path \<Rightarrow> path option \<Rightarrow> path \<times> content \<Rightarrow>
   (string \<times> string \<times> bool) option" where
  "checkpoint_entry reformat checkpoint_dir current_disk entry =
     (case entry of
        (metadata_file, Blob bytes) \<Rightarrow> None
      | (metadata_file, JsonObj metadata) \<Rightarrow>
          let name = dict_get metadata ''name'' (stem metadata_file);
              created = dict_get metadata ''created'' [];
              checkpoint_disk = joinpath checkpoint_dir (name @ ''.qcow2'');
              is_active = (current_disk = Some checkpoint_disk);
              created_str = (case reformat created of Some s \<Rightarrow> s | None \<Rightarrow> created)
          in Some (name, created_str, is_active))"

text \<open>\<^verbatim>\<open>checkpoints.sort(key=lambda x: x[1], reverse=True)\<close>: stable, descending.\<close>

definition sort_newest_first ::
  "(string \<times> string \<times> bool) list \<Rightarrow> (string \<times> string \<times> bool) list" where
  "sort_newest_first xs = rev (sort_key (\<lambda>x. fst (snd x)) (rev xs))"

definition list_checkpoints ::
  "(string \<Rightarrow> string option) \<Rightarrow> world \<Rightarrow> string \<Rightarrow> (string \<times> string \<times> bool) list" where
  "list_checkpoints reformat w vm_name =
     (case domains w vm_name of
        None \<Rightarrow> []
      | Some domain \<Rightarrow>
          let current_disk =
                map_option (\<lambda>disk_elem. path_of (get_file disk_elem))
                  (xsource (XMLDesc_INACTIVE domain));
              checkpoint_dir = checkpoint_dir_of vm_name
          in if \<not> dir_exists (files w) checkpoint_dir then []
             else sort_newest_first
                    (List.map_filter (checkpoint_entry reformat checkpoint_dir current_disk)
                       (glob_json (files w) checkpoint_dir)))"

text \<open>The step of \<^verbatim>\<open>switch_checkpoint\<close> that saves the current disk under an
  automatic name: the copy, then the metadata.\<close>

definition auto_preserve :: "env \<Rightarrow> filesystem \<Rightarrow> path \<Rightarrow> path \<Rightarrow> bool \<times> filesystem" where
  "auto_preserve e fs checkpoint_dir current_disk =
     (let current_checkpoint_name = ''auto-'' @ now_stamp e;
          current_checkpoint_disk = joinpath checkpoint_dir (current_checkpoint_name @ ''.qcow2'');
          current_checkpoint_metadata = joinpath checkpoint_dir (current_checkpoint_name @ ''.json'')
      in case copy2 (copy_result e) fs current_disk current_checkpoint_disk of
           (False, fs1) \<Rightarrow> (False, fs1)
         | (True, fs1) \<Rightarrow>
             let metadata =
                   [(''name'', current_checkpoint_name),
                    (''description'', ''Auto-saved before switch''),
                    (''created'', now_iso e)]
             in write_json (write_result e) fs1 current_checkpoint_metadata metadata)"

definition switch_checkpoint :: "env \<Rightarrow> world \<Rightarrow> string \<Rightarrow> string \<Rightarrow> bool \<times> world" where
  "switch_checkpoint e w vm_name checkpoint_name =
     (case domains w vm_name of
        None \<Rightarrow> (False, w)
      | Some domain \<Rightarrow>
          let xml = XMLDesc_INACTIVE domain in
          (case xsource xml of
             None \<Rightarrow> (False, w)
           | Some disk_elem \<Rightarrow>
               let current_disk = path_of (get_file disk_elem) in
               if \<not> path_exists (files w) current_disk then (False, w)
               else
                 let checkpoint_dir = checkpoint_dir_of vm_name in
                 if \<not> mkdir_parents e (files w) checkpoint_dir then (False, w)
                 else
                   let target_checkpoint_disk =
                         joinpath checkpoint_dir (checkpoint_name @ ''.qcow2'') in
                   if \<not> path_exists (files w) target_checkpoint_disk then (False, w)
                   else if current_disk = target_checkpoint_disk then (True, w)
                   else
                     (case (if parent current_disk \<noteq> checkpoint_dir
                            then auto_preserve e (files w) checkpoint_dir current_disk
                            else (True, files w)) of
                        (False, fs1) \<Rightarrow> (False, w\<lparr>files := fs1\<rparr>)
                      | (True, fs1) \<Rightarrow>
                          let xml' = xml\<lparr>xsource := Some (Some (path_str target_checkpoint_disk))\<rparr>
                          in (case defineXML e (domains w) xml' of
                                None \<Rightarrow> (False, w\<lparr>files := fs1\<rparr>)
                              | Some (returned, doms) \<Rightarrow>
                                  (True, w\<lparr>files := fs1, domains := doms\<rparr>)))))"

definition delete_checkpoint :: "env \<Rightarrow> world \<Rightarrow> string \<Rightarrow> string \<Rightarrow> bool \<times> world" where
  "delete_checkpoint e w vm_name checkpoint_name =
     (let checkpoint_dir = checkpoint_dir_of vm_name;
          checkpoint_disk = joinpath checkpoint_dir (checkpoint_name @ ''.qcow2'');
          metadata_file = joinpath checkpoint_dir (checkpoint_name @ ''.json'')
      in case (if path_exists (files w) checkpoint_disk
               then unlink e (files w) checkpoint_disk else Some (files w)) of
           None \<Rightarrow> (False, w)
         | Some fs1 \<Rightarrow>
             (case (if path_exists fs1 metadata_file
                    then unlink e fs1 metadata_file else Some fs1) of
                None \<Rightarrow> (False, w\<lparr>files := fs1\<rparr>)
              | Some fs2 \<Rightarrow> (True, w\<lparr>files := fs2\<rparr>)))"

definition separate_checkpoint_to_vm ::
  "env \<Rightarrow> world \<Rightarrow> string \<Rightarrow> string \<Rightarrow> string \<Rightarrow> bool \<times> world" where
  "separate_checkpoint_to_vm e w checkpoint_name new_vm_name source_vm_name =
     (case domains w source_vm_name of
        None \<Rightarrow> (False, w)
      | Some source_domain \<Rightarrow>
          let checkpoint_dir = checkpoint_dir_of source_vm_name;
              checkpoint_disk = joinpath checkpoint_dir (checkpoint_name @ ''.qcow2'');
              checkpoint_metadata = joinpath checkpoint_dir (checkpoint_name @ ''.json'')
          in if \<not> path_exists (files w) checkpoint_disk then (False, w)
             else
               let new_disk = joinpath DISK_DIR (new_vm_name @ ''.qcow2'') in
               if path_exists (files w) new_disk then (False, w)
               else
                 (case rename e (files w) checkpoint_disk new_disk of
                    None \<Rightarrow> (False, w)
                  | Some fs1 \<Rightarrow>
                      (case (if path_exists fs1 checkpoint_metadata
                             then unlink e fs1 checkpoint_metadata else Some fs1) of
                         None \<Rightarrow> (False, w\<lparr>files := fs1\<rparr>)
                       | Some fs2 \<Rightarrow>
                           let xml = XMLDesc source_domain;
                               xml' = xml\<lparr>xname := new_vm_name, xuuid := None,
                                         xsource := map_option (\<lambda>disk_elem. Some (path_str new_disk))
                                                      (xsource xml)\<rparr>
                           in (case defineXML e (domains w) xml' of
                                 None \<Rightarrow> (False, w\<lparr>files := fs2\<rparr>)
                               | Some (False, doms) \<Rightarrow>
                                   (case rename e fs2 new_disk checkpoint_disk of
                                      None \<Rightarrow> (False, w\<lparr>files := fs2\<rparr>)
                                    | Some fs3 \<Rightarrow> (False, w\<lparr>files := fs3\<rparr>))
                               | Some (True, doms) \<Rightarrow>
                                   (True, w\<lparr>files := fs2, domains := doms\<rparr>)))))"

section \<open>The delete action of the checkpoint dialog\<close>

text \<open>
  \<^verbatim>\<open>CheckpointDialog\<close> holds the list it last read, a cursor and a status line.
  \<^verbatim>\<open>_delete_checkpoint\<close> acts on the entry under the cursor; \<open>confirm\<close> is the
  answer to the confirmation dialog, \<open>snaps\<close> what \<^verbatim>\<open>on_list_snapshots\<close> returns.
\<close>

record dialog =
  checkpoints :: "(string \<times> string \<times> bool) list"
  snapshots :: "(string \<times> string) list"
  mode :: string
  cursor_index :: nat
  status_message :: string
  status_type :: string

definition set_status :: "dialog \<Rightarrow> string \<Rightarrow> string \<Rightarrow> dialog" where
  "set_status dlg message type = dlg\<lparr>status_message := message, status_type := type\<rparr>"

definition refresh_lists ::
  "(string \<times> string \<times> bool) list \<Rightarrow> (string \<times> string) list \<Rightarrow> dialog \<Rightarrow> dialog" where
  "refresh_lists cps snaps dlg =
     (let dlg1 = dlg\<lparr>checkpoints := cps, snapshots := snaps, status_message := []\<rparr>
      in if mode dlg1 = ''checkpoint''
         then dlg1\<lparr>cursor_index := min (cursor_index dlg1) (length cps - 1)\<rparr>
         else dlg1\<lparr>cursor_index := min (cursor_index dlg1) (length snaps - 1)\<rparr>)"

definition ui_delete_checkpoint ::
  "(string \<Rightarrow> string option) \<Rightarrow> env \<Rightarrow> bool \<Rightarrow> (string \<times> string) list \<Rightarrow>
   dialog \<Rightarrow> world \<Rightarrow> string \<Rightarrow> dialog \<times> world" where
  "ui_delete_checkpoint reformat e confirm snaps dlg w vm_name =
     (if checkpoints dlg = [] \<or> cursor_index dlg \<ge> length (checkpoints dlg) then (dlg, w)
      else
        (case checkpoints dlg ! cursor_index dlg of
           (name, created, is_active) \<Rightarrow>
             if is_active then (set_status dlg ''Cannot delete active checkpoint'' ''error'', w)
             else if \<not> confirm then (dlg, w)
             else
               (case delete_checkpoint e w vm_name name of
                  (True, w') \<Rightarrow>
                    (set_status
                       (refresh_lists (list_checkpoints reformat w' vm_name) snaps dlg)
                       (''Checkpoint '' @ [CHR 0x27] @ name @ [CHR 0x27] @ '' deleted'') ''success'', w')
                | (False, w') \<Rightarrow>
                    (set_status dlg ''Failed to delete checkpoint'' ''error'', w'))))"

section \<open>Sequences of operations on one VM\<close>

datatype op = Create string string | Switch string

fun apply_op :: "string \<Rightarrow> world \<Rightarrow> env \<times> op \<Rightarrow> world" where
  "apply_op vm_name w (e, Create checkpoint_name description) =
     snd (create_checkpoint e w vm_name checkpoint_name description)"
| "apply_op vm_name w (e, Switch checkpoint_name) =
     snd (switch_checkpoint e w vm_name checkpoint_name)"

definition run_ops :: "string \<Rightarrow> world \<Rightarrow> (env \<times> op) list \<Rightarrow> world" where
  "run_ops vm_name w ops = foldl (apply_op vm_name) w ops"

text \<open>
  The persistent disk path of a VM, as \<^verbatim>\<open>list_checkpoints\<close> and
  \<^verbatim>\<open>switch_checkpoint\<close> read it: the \<^verbatim>\<open>file\<close> attribute of the disk
  source in the inactive XML, as a path. It is \<open>None\<close> when the domain is not defined
  or has no disk source.
\<close>

definition persistent_disk_path :: "world \<Rightarrow> string \<Rightarrow> path option" where
  "persistent_disk_path w vm_name =
     (case domains w vm_name of
        None \<Rightarrow> None
      | Some domain \<Rightarrow>
          map_option (\<lambda>disk_elem. path_of (get_file disk_elem)) (xsource (XMLDesc_INACTIVE domain)))"

section \<open>Auxiliary notions for the proofs\<close>

text \<open>
  A name with an extension appended parses into a root, leading components and a last
  component that depend on the name (and the directory) only, followed by the extension.
\<close>

definition base_root :: "path \<Rightarrow> string \<Rightarrow> string" where
  "base_root d n = (if root_of n \<noteq> [] then root_of n else root d)"

definition base_parts :: "path \<Rightarrow> string \<Rightarrow> string list" where
  "base_parts d n =
     (if root_of n \<noteq> [] then [] else parts d) @ filter part_ok (butlast (split_slash n))"

definition base_last :: "string \<Rightarrow> string" where
  "base_last n = last (split_slash n)"

definition is_ext :: "string \<Rightarrow> bool" where
  "is_ext e = (CHR ''/'' \<notin> set e \<and> 2 \<le> length e)"

text \<open>
  A path as parsing produces it: one of the three roots, and components that are not
  empty, not a single dot, and free of slashes.
\<close>

definition wf_path :: "path \<Rightarrow> bool" where
  "wf_path p = (root p \<in> {[], ''/'', ''//''} \<and>
                (\<forall>w \<in> set (parts p). part_ok w \<and> CHR ''/'' \<notin> set w))"

text \<open>
  The metadata files of a checkpoint directory are consistent when
  \<^verbatim>\<open>glob("*.json")\<close> yields no path twice, and every file among them that parses
  names itself: the name \<^verbatim>\<open>list_checkpoints\<close> reads from it (the \<^verbatim>\<open>name\<close>
  field, or the stem of the file), with \<^verbatim>\<open>.json\<close> appended and joined to the
  directory, is the path of the file. A directory without metadata files is consistent,
  and every metadata file the operations write names itself.
\<close>

definition in_dir_json :: "path \<Rightarrow> path \<Rightarrow> bool" where
  "in_dir_json d p = (parts p \<noteq> [] \<and> parent p = d \<and> ends_with ''.json'' (name_of p))"

definition entry_consistent :: "path \<Rightarrow> path \<times> content \<Rightarrow> bool" where
  "entry_consistent d entry =
     (case entry of
        (f, Blob bytes) \<Rightarrow> True
      | (f, JsonObj metadata) \<Rightarrow>
          joinpath d (dict_get metadata ''name'' (stem f) @ ''.json'') = f)"

definition metadata_consistent :: "filesystem \<Rightarrow> path \<Rightarrow> bool" where
  "metadata_consistent fs d =
     (distinct (map fst (glob_json fs d)) \<and> list_all (entry_consistent d) (glob_json fs d))"

text \<open>
The \<^verbatim>\<open>is_active\<close> flag of an entry of the list.
\<close>

definition is_active_entry :: "string \<times> string \<times> bool \<Rightarrow> bool" where
  "is_active_entry x = snd (snd x)"

section \<open>A concrete scenario\<close>

text \<open>
  VM \<^verbatim>\<open>alpha\<close>, stopped, with the disk \<^verbatim>\<open>/disks/alpha.qcow2\<close> of content
  \<^verbatim>\<open>A\<close>; an environment in which no library call fails, and three in which one
  does; the world after \<^verbatim>\<open>create_checkpoint("alpha", "snap1", "before upgrade")\<close>,
  and the world after \<^verbatim>\<open>switch_checkpoint("alpha", "snap1")\<close> on top of it.
\<close>

definition alpha_xml :: domxml where
  "alpha_xml = \<lparr>xname = ''alpha'', xuuid = Some ''6f1c'',
                 xsource = Some (Some ''/disks/alpha.qcow2'')\<rparr>"

definition env_ok :: env where
  "env_ok = \<lparr>mkdir_ok = True, copy_result = Completes, write_result = Completes,
     define_outcome = Defined, unlink_ok = (\<lambda>p. True), rename_ok = (\<lambda>p q. True),
     now_stamp = ''20260101-120000'', now_iso = ''2026-01-01T12:00:00.000001''\<rparr>"

definition env_copy_fails :: env where
  "env_copy_fails = env_ok\<lparr>copy_result := Fails (Some ''A'')\<rparr>"

definition env_define_none :: env where
  "env_define_none = env_ok\<lparr>define_outcome := Returns_None\<rparr>"

definition env_define_raises :: env where
  "env_define_raises = env_ok\<lparr>define_outcome := Raises_libvirtError\<rparr>"

definition world0 :: world where
  "world0 = \<lparr>files = [(Path ''/'' [''disks'', ''alpha.qcow2''], Blob ''A'')],
             domains = [''alpha'' \<mapsto> \<lparr>persistent = alpha_xml, live = None\<rparr>]\<rparr>"

definition world1 :: world where
  "world1 = snd (create_checkpoint env_ok world0 ''alpha'' ''snap1'' ''before upgrade'')"

definition world2 :: world where
  "world2 = snd (switch_checkpoint env_ok world1 ''alpha'' ''snap1'')"

definition alpha_dir :: path where
  "alpha_dir = Path ''/'' [''var'', ''lib'', ''libvirt'', ''images'', ''vms'', ''disks'',
                          ''checkpoints'', ''alpha'']"

text \<open>
  A world in which a metadata file was left behind without its disk; a world in which
  \<^verbatim>\<open>alpha\<close> is running on \<^verbatim>\<open>/disks/alpha.qcow2\<close> while its persistent
  definition already points at the checkpoint \<^verbatim>\<open>snap1\<close>; the reformatting of the
  one timestamp of the scenario; and the dialog opened on the last world of the scenario.
\<close>

definition world_orphan :: world where
  "world_orphan =
     \<lparr>files = [(Path ''/'' [''disks'', ''alpha.qcow2''], Blob ''A''),
               (Path ''/'' (parts alpha_dir @ [''snap1.json'']),
                JsonObj [(''name'', ''snap1''), (''description'', ''left behind'')])],
      domains = [''alpha'' \<mapsto> \<lparr>persistent = alpha_xml, live = None\<rparr>]\<rparr>"

definition world_running :: world where
  "world_running =
     \<lparr>files = [(Path ''/'' [''disks'', ''alpha.qcow2''], Blob ''LIVE''),
               (Path ''/'' (parts alpha_dir @ [''snap1.qcow2'']), Blob ''A''),
               (Path ''/'' (parts alpha_dir @ [''snap1.json'']),
                JsonObj [(''name'', ''snap1''), (''description'', ''before upgrade''),
                         (''created'', ''2026-01-01T12:00:00.000001''),
                         (''original_disk'', ''/disks/alpha.qcow2''), (''vm_name'', ''alpha'')])],
      domains = [''alpha'' \<mapsto>
        \<lparr>persistent = alpha_xml\<lparr>xsource :=
             Some (Some ''/var/lib/libvirt/images/vms/disks/checkpoints/alpha/snap1.qcow2'')\<rparr>,
         live = Some alpha_xml\<rparr>]\<rparr>"

definition reformat_scn :: "string \<Rightarrow> string option" where
  "reformat_scn s =
     (if s = ''2026-01-01T12:00:00.000001'' then Some ''2026-01-01 12:00:00'' else None)"

definition dialog_scn :: dialog where
  "dialog_scn =
     \<lparr>checkpoints = list_checkpoints reformat_scn world2 ''alpha'', snapshots = [],
      mode = ''checkpoint'', cursor_index = 0, status_message = [], status_type = ''info''\<rparr>"

section \<open>Properties of paths\<close>

lemma split_slash_ne [simp]: "split_slash s \<noteq> []"
  by (induction s) (auto, metis cons_char.elims list.discI)

lemma split_slash_noslash: "CHR ''/'' \<notin> set e \<Longrightarrow> split_slash e = [e]"
  by (induction e) (auto simp: is_slash_def)

lemma split_slash_append:
  "CHR ''/'' \<notin> set e \<Longrightarrow>
   split_slash (n @ e) = butlast (split_slash n) @ [last (split_slash n) @ e]"
proof (induction n)
  case Nil
  then show ?case by (simp add: split_slash_noslash)
next
  case (Cons c cs)
  obtain w ws where S: "split_slash cs = w # ws"
    by (cases "split_slash cs") auto
  show ?case
  proof (cases "is_slash c")
    case True
    with Cons S show ?thesis by simp
  next
    case False
    with Cons S show ?thesis by (cases ws) auto
  qed
qed

lemma root_of_append:
  assumes "e \<noteq> []" "\<not> is_slash (hd e)"
  shows "root_of (n @ e) = root_of n"
proof -
  from assms have "takeWhile is_slash e = []" by (cases e) auto
  then have "takeWhile is_slash (n @ e) = takeWhile is_slash n"
    by (induction n) auto
  then show ?thesis by (simp add: root_of_def)
qed

lemma is_ext_qcow2 [simp]: "is_ext ''.qcow2''"
  by (simp add: is_ext_def)

lemma is_ext_json [simp]: "is_ext ''.json''"
  by (simp add: is_ext_def)

lemma path_of_ext:
  assumes "is_ext e"
  shows "path_of (n @ e) =
         Path (root_of n) (filter part_ok (butlast (split_slash n)) @ [base_last n @ e])"
proof -
  from assms have ns: "CHR ''/'' \<notin> set e" and len: "2 \<le> length e"
    by (simp_all add: is_ext_def)
  from len have ne: "e \<noteq> []" by auto
  with ns have "\<not> is_slash (hd e)" by (cases e) (auto simp: is_slash_def)
  with ne have r: "root_of (n @ e) = root_of n" by (rule root_of_append)
  have ok: "part_ok (base_last n @ e)"
  proof -
    have "base_last n @ e \<noteq> ''.''"
    proof
      assume "base_last n @ e = ''.''"
      then have "length (base_last n @ e) = 1" by simp
      with len show False by simp
    qed
    with ne show ?thesis by (simp add: part_ok_def)
  qed
  show ?thesis
    using r ok by (simp add: path_of_def split_slash_append [OF ns] base_last_def)
qed

lemma joinpath_ext:
  assumes "is_ext e"
  shows "joinpath d (n @ e) = Path (base_root d n) (base_parts d n @ [base_last n @ e])"
  by (simp add: joinpath_def path_of_ext [OF assms] base_root_def base_parts_def Let_def)

lemma joinpath_ext_inj:
  assumes "is_ext e" "is_ext e'" "joinpath d (n @ e) = joinpath d (n' @ e)"
  shows "joinpath d (n @ e') = joinpath d (n' @ e')"
  using assms by (simp add: joinpath_ext)

lemma joinpath_ext_neq:
  assumes "is_ext e" "is_ext e'" "e \<noteq> e'"
  shows "joinpath d (n @ e) \<noteq> joinpath d (n @ e')"
  using assms by (simp add: joinpath_ext)

lemma name_of_joinpath_ext:
  "is_ext e \<Longrightarrow> name_of (joinpath d (n @ e)) = base_last n @ e"
  by (simp add: joinpath_ext name_of_def)

lemma qcow2_not_json [simp]: "\<not> ends_with ''.json'' (w @ ''.qcow2'')"
  by (simp add: ends_with_def)

lemma json_is_json [simp]: "ends_with ''.json'' (w @ ''.json'')"
  by (simp add: ends_with_def)

lemma qcow2_neq_json:
  "joinpath d (n @ ''.qcow2'') \<noteq> joinpath d (n @ ''.json'')"
  by (rule joinpath_ext_neq) simp_all

lemma joinpath_safe:
  assumes "is_ext e" "CHR ''/'' \<notin> set n"
  shows "joinpath d (n @ e) = Path (root d) (parts d @ [n @ e])"
proof -
  from assms(2) have s: "split_slash n = [n]" by (rule split_slash_noslash)
  have "takeWhile is_slash n = []" using assms(2) by (cases n) (auto simp: is_slash_def)
  then have "root_of n = []" by (simp add: root_of_def)
  then show ?thesis
    by (simp add: joinpath_ext [OF assms(1)] base_root_def base_parts_def base_last_def s)
qed

lemma parent_joinpath_safe:
  assumes "is_ext e" "CHR ''/'' \<notin> set n"
  shows "parent (joinpath d (n @ e)) = d" "parts (joinpath d (n @ e)) \<noteq> []"
  by (simp_all add: joinpath_safe [OF assms] parent_def)

subsection \<open>Printing a path and parsing it again\<close>

lemma set_cons_char: "S \<noteq> [] \<Longrightarrow> set (cons_char c S) = insert (c # hd S) (set (tl S))"
  by (cases S) auto

lemma split_slash_pieces: "w \<in> set (split_slash s) \<Longrightarrow> CHR ''/'' \<notin> set w"
proof (induction s arbitrary: w)
  case Nil
  then show ?case by simp
next
  case (Cons c cs)
  show ?case
  proof (cases "is_slash c")
    case True
    with Cons show ?thesis by auto
  next
    case False
    with Cons.prems have "w = c # hd (split_slash cs) \<or> w \<in> set (tl (split_slash cs))"
      by (simp add: set_cons_char)
    moreover have "hd (split_slash cs) \<in> set (split_slash cs)" by simp
    moreover have "set (tl (split_slash cs)) \<subseteq> set (split_slash cs)"
      by (cases "split_slash cs") auto
    ultimately show ?thesis
      using Cons.IH False by (auto simp: is_slash_def)
  qed
qed

lemma root_of_cases: "root_of s \<in> {[], ''/'', ''//''}"
  by (simp add: root_of_def Let_def)

lemma wf_path_of: "wf_path (path_of s)"
  using root_of_cases [of s] by (auto simp: wf_path_def path_of_def dest: split_slash_pieces)

lemma wf_joinpath: "wf_path p \<Longrightarrow> wf_path (joinpath p s)"
  using wf_path_of [of s] by (auto simp: joinpath_def Let_def wf_path_def)

lemma wf_checkpoint_dir: "wf_path (checkpoint_dir_of vm_name)"
  by (simp add: checkpoint_dir_of_def DISK_DIR_def VM_DIR_def wf_joinpath wf_path_of)

lemma split_slash_app_slash:
  "CHR ''/'' \<notin> set w \<Longrightarrow> split_slash (w @ CHR ''/'' # rest) = w # split_slash rest"
  by (induction w) (auto simp: is_slash_def)

lemma split_join_slash:
  "ps \<noteq> [] \<Longrightarrow> \<forall>w \<in> set ps. CHR ''/'' \<notin> set w \<Longrightarrow> split_slash (join_slash ps) = ps"
proof (induction ps rule: join_slash.induct)
  case 1
  then show ?case by simp
next
  case (2 w)
  then show ?case by (simp add: split_slash_noslash)
next
  case (3 w v vs)
  then show ?case by (simp add: split_slash_app_slash)
qed

lemma join_slash_prefix: "\<exists>r. join_slash (w # ws) = w @ r"
  by (cases ws) auto

lemma takeWhile_join_slash:
  assumes "\<forall>w \<in> set ps. part_ok w \<and> CHR ''/'' \<notin> set w"
  shows "takeWhile is_slash (join_slash ps) = []"
proof (cases ps)
  case Nil
  then show ?thesis by simp
next
  case (Cons w ws)
  obtain r where r: "join_slash (w # ws) = w @ r" using join_slash_prefix by blast
  from assms Cons have "w \<noteq> []" "CHR ''/'' \<notin> set w" by (auto simp: part_ok_def)
  then obtain c cs where "w = c # cs" "\<not> is_slash c"
    by (cases w) (auto simp: is_slash_def)
  with r Cons show ?thesis by simp
qed

lemma filter_split_join:
  assumes "\<forall>w \<in> set ps. part_ok w \<and> CHR ''/'' \<notin> set w"
  shows "filter part_ok (split_slash (join_slash ps)) = ps"
proof (cases ps)
  case Nil
  then show ?thesis by (simp add: part_ok_def)
next
  case (Cons w ws)
  with assms have "split_slash (join_slash ps) = ps"
    by (intro split_join_slash) auto
  with assms show ?thesis by (simp add: filter_id_conv)
qed

lemma path_of_path_str:
  assumes "wf_path p"
  shows "path_of (path_str p) = p"
proof -
  obtain r ps where p: "p = Path r ps" by (cases p)
  from assms p have ok: "\<forall>w \<in> set ps. part_ok w \<and> CHR ''/'' \<notin> set w"
    and r: "r = [] \<or> r = ''/'' \<or> r = ''//''"
    by (auto simp: wf_path_def)
  note tw = takeWhile_join_slash [OF ok] and fs = filter_split_join [OF ok]
  from r show ?thesis
  proof (elim disjE)
    assume "r = []"
    then show ?thesis
      using p tw fs
      by (auto simp: path_str_def path_of_def root_of_def is_slash_def part_ok_def)
  next
    assume "r = ''/''"
    then show ?thesis
      using p tw fs
      by (simp add: path_str_def path_of_def root_of_def is_slash_def part_ok_def)
  next
    assume "r = ''//''"
    then show ?thesis
      using p tw fs
      by (simp add: path_str_def path_of_def root_of_def is_slash_def part_ok_def)
  qed
qed

lemma path_of_str_checkpoint_disk:
  "path_of (path_str (joinpath (checkpoint_dir_of vm_name) s)) = joinpath (checkpoint_dir_of vm_name) s"
  by (simp add: path_of_path_str wf_joinpath wf_checkpoint_dir)

section \<open>Properties of the file system and of the listing\<close>

lemma get_file_Some [simp]: "get_file (Some s) = s"
  by (simp add: get_file_def)

lemma dir_exists_child:
  assumes "map_of fs p = Some c" "parts p \<noteq> []" "parent p = d"
  shows "dir_exists fs d"
proof -
  from assms(1) have "(p, c) \<in> set fs" by (rule map_of_SomeD)
  with assms(2,3) show ?thesis
    unfolding dir_exists_def list_ex_iff by blast
qed

lemma dir_exists_safe:
  assumes "path_exists fs (joinpath d (n @ e))" "is_ext e" "CHR ''/'' \<notin> set n"
  shows "dir_exists fs d"
proof -
  from assms(1) obtain c where "map_of fs (joinpath d (n @ e)) = Some c"
    by (auto simp: path_exists_def)
  then show ?thesis
    using parent_joinpath_safe(2) [OF assms(2,3)] parent_joinpath_safe(1) [OF assms(2,3)]
    by (rule dir_exists_child)
qed

lemma persistent_disk_pathD:
  assumes "persistent_disk_path w vm_name = Some p"
  obtains domain disk_elem where "domains w vm_name = Some domain"
    and "xsource (persistent domain) = Some disk_elem"
    and "path_of (get_file disk_elem) = p"
  using assms
  by (auto simp: persistent_disk_path_def XMLDesc_INACTIVE_def split: option.splits)

lemma in_set_map_filter:
  "y \<in> set (List.map_filter f xs) \<longleftrightarrow> (\<exists>x \<in> set xs. f x = Some y)"
  by (induction xs) (auto split: option.splits)

lemma set_sort_newest_first [simp]: "set (sort_newest_first xs) = set xs"
  by (simp add: sort_newest_first_def)

lemma list_checkpoints_active_iff:
  assumes "(n, t, a) \<in> set (list_checkpoints reformat w vm_name)"
  shows "a = (persistent_disk_path w vm_name =
                Some (joinpath (checkpoint_dir_of vm_name) (n @ ''.qcow2'')))"
proof (cases "domains w vm_name")
  case None
  with assms show ?thesis by (simp add: list_checkpoints_def)
next
  case (Some domain)
  with assms obtain entry where
    "checkpoint_entry reformat (checkpoint_dir_of vm_name)
        (map_option (\<lambda>disk_elem. path_of (get_file disk_elem)) (xsource (XMLDesc_INACTIVE domain)))
        entry = Some (n, t, a)"
    by (auto simp: list_checkpoints_def Let_def in_set_map_filter split: if_splits)
  with Some show ?thesis
    by (auto simp: checkpoint_entry_def persistent_disk_path_def Let_def
          split: prod.splits content.splits)
qed

lemma length_filter_sort_newest_first:
  "length (filter P (sort_newest_first xs)) = length (filter P xs)"
proof -
  have "mset (sort_newest_first xs) = mset xs"
    by (simp add: sort_newest_first_def)
  then have "mset (filter P (sort_newest_first xs)) = mset (filter P xs)"
    by simp
  then show ?thesis by (metis size_mset)
qed

lemma length_filter_map_filter:
  "length (filter P (List.map_filter f xs)) =
   length (filter (\<lambda>x. case f x of None \<Rightarrow> False | Some y \<Rightarrow> P y) xs)"
  by (induction xs) (auto split: option.splits)

lemma at_most_one_by_key:
  assumes "distinct (map fst G)"
    and "\<And>x y. x \<in> set G \<Longrightarrow> y \<in> set G \<Longrightarrow> A x \<Longrightarrow> A y \<Longrightarrow> fst x = fst y"
  shows "length (filter A G) \<le> 1"
  using assms
proof (induction G)
  case Nil
  then show ?case by simp
next
  case (Cons x G)
  show ?case
  proof (cases "A x")
    case False
    with Cons show ?thesis by simp
  next
    case True
    have "filter A G = []"
    proof (rule ccontr)
      assume "filter A G \<noteq> []"
      then obtain y where y: "y \<in> set G" "A y"
        by (metis filter_False)
      with True Cons.prems(2) [of x y] have "fst x = fst y" by simp
      with y(1) Cons.prems(1) show False by force
    qed
    with True show ?thesis by simp
  qed
qed

subsection \<open>Consistency of the metadata is kept by every write\<close>

lemma glob_json_filter: "glob_json fs d = filter (\<lambda>(p, c). in_dir_json d p) fs"
  by (simp add: glob_json_def in_dir_json_def)

lemma filter_update_other:
  "\<not> Q k \<Longrightarrow> filter (\<lambda>(p, c). Q p) (AList.update k v fs) = filter (\<lambda>(p, c). Q p) fs"
  by (induction fs) auto

lemma filter_update_same:
  "Q k \<Longrightarrow> filter (\<lambda>(p, c). Q p) (AList.update k v fs) =
           AList.update k v (filter (\<lambda>(p, c). Q p) fs)"
  by (induction fs) auto

lemma set_update_subset: "set (AList.update k v al) \<subseteq> insert (k, v) (set al)"
  by (induction al) auto

lemma consistent_update_other:
  "\<not> in_dir_json d k \<Longrightarrow> metadata_consistent (AList.update k v fs) d = metadata_consistent fs d"
  by (simp add: metadata_consistent_def glob_json_filter filter_update_other)

lemma consistent_update_entry:
  assumes "metadata_consistent fs d" "entry_consistent d (k, v)"
  shows "metadata_consistent (AList.update k v fs) d"
proof (cases "in_dir_json d k")
  case False
  with assms(1) show ?thesis by (simp add: consistent_update_other)
next
  case True
  let ?G = "glob_json fs d"
  have g: "glob_json (AList.update k v fs) d = AList.update k v ?G"
    using True by (simp add: glob_json_filter filter_update_same)
  from assms(1) have "distinct (map fst (AList.update k v ?G))"
    by (simp add: metadata_consistent_def distinct_update)
  moreover have "list_all (entry_consistent d) (AList.update k v ?G)"
    using assms set_update_subset [of k v ?G]
    by (auto simp: metadata_consistent_def list_all_iff)
  ultimately show ?thesis by (simp add: metadata_consistent_def g)
qed

lemma qcow2_not_in_dir_json: "\<not> in_dir_json d (joinpath d' (n @ ''.qcow2''))"
  by (simp add: in_dir_json_def name_of_joinpath_ext)

lemma copy2_consistent:
  assumes "metadata_consistent fs d"
  shows "metadata_consistent (snd (copy2 outcome fs src (joinpath d' (n @ ''.qcow2'')))) d"
  using assms
  by (simp add: copy2_def consistent_update_other qcow2_not_in_dir_json
        split: option.splits io_result.splits)

lemma write_json_consistent:
  assumes "metadata_consistent fs d" "map_of metadata ''name'' = Some n"
  shows "metadata_consistent (snd (write_json outcome fs (joinpath d (n @ ''.json'')) metadata)) d"
proof -
  have "entry_consistent d (joinpath d (n @ ''.json''), JsonObj metadata)"
    using assms(2) by (simp add: entry_consistent_def dict_get_def)
  moreover have "entry_consistent d (joinpath d (n @ ''.json''), Blob bytes)" for bytes
    by (simp add: entry_consistent_def)
  ultimately show ?thesis
    using assms(1)
    by (simp add: write_json_def consistent_update_entry split: io_result.splits option.splits)
qed

lemma create_checkpoint_consistent:
  assumes "metadata_consistent (files w) (checkpoint_dir_of vm_name)"
  shows "metadata_consistent
           (files (snd (create_checkpoint e w vm_name checkpoint_name description)))
           (checkpoint_dir_of vm_name)"
proof -
  let ?d = "checkpoint_dir_of vm_name"
  have c: "metadata_consistent (snd (copy2 (copy_result e) (files w) src
              (joinpath ?d (checkpoint_name @ ''.qcow2'')))) ?d" for src
    using assms by (rule copy2_consistent)
  have "metadata_consistent (snd (write_json (write_result e) fs1
              (joinpath ?d (checkpoint_name @ ''.json''))
              [(''name'', checkpoint_name), (''description'', description),
               (''created'', now_iso e), (''original_disk'', disk), (''vm_name'', vm_name)])) ?d"
    if "metadata_consistent fs1 ?d" for fs1 disk
    using that by (rule write_json_consistent) simp
  with c assms show ?thesis
    by (auto simp: create_checkpoint_def Let_def
          split: option.splits prod.splits bool.splits)
       (metis snd_conv)+
qed

lemma auto_preserve_consistent:
  assumes "metadata_consistent fs d"
  shows "metadata_consistent (snd (auto_preserve e fs d current_disk)) d"
proof -
  let ?n = "''auto-'' @ now_stamp e"
  have c: "metadata_consistent (snd (copy2 (copy_result e) fs current_disk
              (joinpath d (?n @ ''.qcow2'')))) d"
    using assms by (rule copy2_consistent)
  have "metadata_consistent (snd (write_json (write_result e) fs1
              (joinpath d (?n @ ''.json''))
              [(''name'', ?n), (''description'', ''Auto-saved before switch''),
               (''created'', now_iso e)])) d"
    if "metadata_consistent fs1 d" for fs1
    using that by (rule write_json_consistent) simp
  with c show ?thesis
    by (auto simp: auto_preserve_def Let_def split: prod.splits bool.splits)
qed

lemma switch_checkpoint_consistent:
  assumes "metadata_consistent (files w) (checkpoint_dir_of vm_name)"
  shows "metadata_consistent
           (files (snd (switch_checkpoint e w vm_name checkpoint_name)))
           (checkpoint_dir_of vm_name)"
proof -
  have "metadata_consistent (snd (auto_preserve e (files w) (checkpoint_dir_of vm_name) cur))
          (checkpoint_dir_of vm_name)" for cur
    using assms by (rule auto_preserve_consistent)
  with assms show ?thesis
    by (auto simp: switch_checkpoint_def Let_def
          split: option.splits prod.splits bool.splits if_splits)
       (metis snd_conv)+
qed

lemma apply_op_consistent:
  assumes "metadata_consistent (files w) (checkpoint_dir_of vm_name)"
  shows "metadata_consistent (files (apply_op vm_name w step)) (checkpoint_dir_of vm_name)"
proof -
  obtain e oper where step: "step = (e, oper)" by (cases step)
  show ?thesis
    using assms unfolding step
    by (cases oper) (simp_all add: create_checkpoint_consistent switch_checkpoint_consistent)
qed

lemma run_ops_consistent:
  "metadata_consistent (files w) (checkpoint_dir_of vm_name) \<Longrightarrow>
   metadata_consistent (files (run_ops vm_name w ops)) (checkpoint_dir_of vm_name)"
  unfolding run_ops_def
  by (induction ops arbitrary: w) (simp_all add: apply_op_consistent)

lemma no_metadata_consistent:
  "glob_json fs d = [] \<Longrightarrow> metadata_consistent fs d"
  by (simp add: metadata_consistent_def)

lemma consistent_one_active:
  assumes "metadata_consistent (files w) (checkpoint_dir_of vm_name)"
  shows "length (filter is_active_entry (list_checkpoints reformat w vm_name)) \<le> 1"
proof (cases "domains w vm_name")
  case None
  then show ?thesis by (simp add: list_checkpoints_def)
next
  case (Some domain)
  let ?d = "checkpoint_dir_of vm_name"
  let ?cur = "map_option (\<lambda>disk_elem. path_of (get_file disk_elem)) (xsource (XMLDesc_INACTIVE domain))"
  let ?G = "glob_json (files w) ?d"
  let ?A = "\<lambda>x. case checkpoint_entry reformat ?d ?cur x of
                   None \<Rightarrow> False | Some y \<Rightarrow> is_active_entry y"
  from assms have dist: "distinct (map fst ?G)"
    and cons: "\<And>x. x \<in> set ?G \<Longrightarrow> entry_consistent ?d x"
    by (auto simp: metadata_consistent_def list_all_iff)
  have key: "fst x = fst y" if xG: "x \<in> set ?G" and yG: "y \<in> set ?G" and Ax: "?A x" and Ay: "?A y" for x y
  proof -
    obtain f m where x: "x = (f, JsonObj m)"
      "?cur = Some (joinpath ?d (dict_get m ''name'' (stem f) @ ''.qcow2''))"
      using Ax
      by (cases x; cases "snd x")
         (auto simp: checkpoint_entry_def is_active_entry_def Let_def)
    obtain g k where y: "y = (g, JsonObj k)"
      "?cur = Some (joinpath ?d (dict_get k ''name'' (stem g) @ ''.qcow2''))"
      using Ay
      by (cases y; cases "snd y")
         (auto simp: checkpoint_entry_def is_active_entry_def Let_def)
    from x(2) y(2) have "joinpath ?d (dict_get m ''name'' (stem f) @ ''.qcow2'') =
        joinpath ?d (dict_get k ''name'' (stem g) @ ''.qcow2'')" by simp
    then have "joinpath ?d (dict_get m ''name'' (stem f) @ ''.json'') =
        joinpath ?d (dict_get k ''name'' (stem g) @ ''.json'')"
      by (rule joinpath_ext_inj [OF is_ext_qcow2 is_ext_json])
    moreover from cons [OF xG] x(1)
    have "joinpath ?d (dict_get m ''name'' (stem f) @ ''.json'') = f"
      by (simp add: entry_consistent_def)
    moreover from cons [OF yG] y(1)
    have "joinpath ?d (dict_get k ''name'' (stem g) @ ''.json'') = g"
      by (simp add: entry_consistent_def)
    ultimately show ?thesis using x(1) y(1) by simp
  qed
  have "length (filter ?A ?G) \<le> 1"
    using dist key by (rule at_most_one_by_key)
  with Some show ?thesis
    by (simp add: list_checkpoints_def Let_def length_filter_sort_newest_first
          length_filter_map_filter)
qed

text \<open>
A switch that fails has not touched any VM definition.
\<close>

lemma switch_checkpoint_failure_keeps_domains:
  "\<not> fst (switch_checkpoint e w vm_name checkpoint_name) \<Longrightarrow>
   domains (snd (switch_checkpoint e w vm_name checkpoint_name)) = domains w"
  by (auto simp: switch_checkpoint_def Let_def split: option.splits prod.splits bool.splits if_splits)

section \<open>The scenario, evaluated\<close>

lemmas path_eval = path_of_def root_of_def is_slash_def part_ok_def joinpath_def parent_def
  path_str_def name_of_def ends_with_def VM_DIR_def DISK_DIR_def checkpoint_dir_of_def

lemmas io_eval = path_exists_def dir_exists_def mkdir_parents_def copy2_def write_json_def
  unlink_def rename_def defineXML_def get_file_def XMLDesc_def XMLDesc_INACTIVE_def

lemmas scn_eval = world0_def env_ok_def alpha_xml_def alpha_dir_def path_eval io_eval
  persistent_disk_path_def

lemma alpha_dir_eq: "checkpoint_dir_of ''alpha'' = alpha_dir"
  by (simp add: path_eval alpha_dir_def)

lemma files_world1:
  "files world1 =
     [(Path ''/'' [''disks'', ''alpha.qcow2''], Blob ''A''),
      (Path ''/'' (parts alpha_dir @ [''snap1.qcow2'']), Blob ''A''),
      (Path ''/'' (parts alpha_dir @ [''snap1.json'']),
       JsonObj [(''name'', ''snap1''), (''description'', ''before upgrade''),
                (''created'', ''2026-01-01T12:00:00.000001''),
                (''original_disk'', ''/disks/alpha.qcow2''), (''vm_name'', ''alpha'')])]"
  by (simp add: world1_def create_checkpoint_def world0_def env_ok_def alpha_xml_def
        alpha_dir_def path_eval io_eval)

lemma domains_world1: "domains world1 = domains world0"
  by (simp add: world1_def create_checkpoint_def world0_def env_ok_def alpha_xml_def
        alpha_dir_def path_eval io_eval)

lemma files_world2:
  "files world2 = files world1 @
      [(Path ''/'' (parts alpha_dir @ [''auto-20260101-120000.qcow2'']), Blob ''A''),
      (Path ''/'' (parts alpha_dir @ [''auto-20260101-120000.json'']),
       JsonObj [(''name'', ''auto-20260101-120000''), (''description'', ''Auto-saved before switch''),
                (''created'', ''2026-01-01T12:00:00.000001'')])]"
  by (simp add: world2_def switch_checkpoint_def auto_preserve_def files_world1 domains_world1 world0_def env_ok_def alpha_xml_def
        alpha_dir_def path_eval io_eval)

lemma domains_world2:
  "domains world2 ''alpha'' = Some \<lparr>persistent = alpha_xml\<lparr>xsource := Some (Some ''/var/lib/libvirt/images/vms/disks/checkpoints/alpha/snap1.qcow2'')\<rparr>, live = None\<rparr>"
  by (simp add: world2_def switch_checkpoint_def auto_preserve_def files_world1 domains_world1 world0_def env_ok_def alpha_xml_def
        alpha_dir_def path_eval io_eval)

lemma world1_persistent:
  "persistent_disk_path world1 ''alpha'' = Some (Path ''/'' [''disks'', ''alpha.qcow2''])"
  by (simp add: domains_world1 scn_eval)

lemma world1_snap1_disk:
  "path_exists (files world1) (joinpath (checkpoint_dir_of ''alpha'') (''snap1'' @ ''.qcow2''))"
  by (simp add: files_world1 scn_eval)

lemma world2_persistent:
  "persistent_disk_path world2 ''alpha'' =
     Some (joinpath (checkpoint_dir_of ''alpha'') (''snap1'' @ ''.qcow2''))"
  by (simp add: domains_world2 scn_eval)

lemma world2_snap1_disk:
  "path_exists (files world2) (joinpath (checkpoint_dir_of ''alpha'') (''snap1'' @ ''.qcow2''))"
  by (simp add: files_world2 files_world1 scn_eval)

lemma world2_snap1_meta:
  "path_exists (files world2) (joinpath (checkpoint_dir_of ''alpha'') (''snap1'' @ ''.json''))"
  by (simp add: files_world2 files_world1 scn_eval)

lemma create_world0:
  "create_checkpoint env_ok world0 ''alpha'' ''snap1'' ''before upgrade'' = (True, world1)"
proof -
  have "fst (create_checkpoint env_ok world0 ''alpha'' ''snap1'' ''before upgrade'')"
    by (simp add: create_checkpoint_def scn_eval)
  then show ?thesis by (simp add: world1_def prod_eq_iff)
qed

lemma switch_world1: "switch_checkpoint env_ok world1 ''alpha'' ''snap1'' = (True, world2)"
proof -
  have "fst (switch_checkpoint env_ok world1 ''alpha'' ''snap1'')"
    by (simp add: switch_checkpoint_def auto_preserve_def files_world1 domains_world1 scn_eval)
  then show ?thesis by (simp add: world2_def prod_eq_iff)
qed

lemma auto_preserve_world1:
  "auto_preserve env_ok (files world1) (checkpoint_dir_of ''alpha'')
     (Path ''/'' [''disks'', ''alpha.qcow2'']) = (True, files world2)"
  by (simp add: auto_preserve_def files_world2 files_world1 scn_eval)

lemma list_world1:
  "list_checkpoints reformat_scn world1 ''alpha'' = [(''snap1'', ''2026-01-01 12:00:00'', False)]"
  by (simp add: list_checkpoints_def glob_json_def checkpoint_entry_def dict_get_def
        sort_newest_first_def reformat_scn_def domains_world1 files_world1 scn_eval)

lemma list_world2:
  "list_checkpoints reformat_scn world2 ''alpha'' =
     [(''snap1'', ''2026-01-01 12:00:00'', True),
      (''auto-20260101-120000'', ''2026-01-01 12:00:00'', False)]"
  by (simp add: list_checkpoints_def glob_json_def checkpoint_entry_def dict_get_def
        sort_newest_first_def reformat_scn_def domains_world2 files_world2 files_world1 scn_eval)

lemma run_ops_scn:
  "run_ops ''alpha'' world0
     [(env_ok, Create ''snap1'' ''before upgrade''), (env_ok, Switch ''snap1'')] = world2"
  by (simp add: run_ops_def create_world0 switch_world1)

section \<open>Properties of the checkpoint subsystem\<close>

text \<open>
  Claim C1 (preserve before switch). Let the VM be defined under its own name, let its
  persistent disk path be a file with content \<open>c\<close> that does not lie directly in the
  VM's checkpoint directory, and let the checkpoint name be a file name (no slash). If
  \<^verbatim>\<open>switch_checkpoint\<close> returns \<open>True\<close> (with \<^verbatim>\<open>defineXML\<close> behaving as
  libvirt's binding does: a domain or an exception), then afterwards the checkpoint
  directory holds \<^verbatim>\<open>auto-<stamp>.qcow2\<close> with content \<open>c\<close>, the metadata file
  \<^verbatim>\<open>auto-<stamp>.json\<close> for it, and the VM's persistent disk path is the target
  checkpoint's disk file. A disk that is nowhere inside the checkpoint directory is in
  particular not directly in it, which is the test the code makes.
\<close>

theorem switch_checkpoint_preserves_current:
  assumes "domains w vm_name = Some domain"
    and "xname (persistent domain) = vm_name"
    and "persistent_disk_path w vm_name = Some current_disk"
    and "map_of (files w) current_disk = Some c"
    and "parent current_disk \<noteq> checkpoint_dir_of vm_name"
    and "CHR ''/'' \<notin> set checkpoint_name"
    and "define_outcome e \<noteq> Returns_None"
    and "switch_checkpoint e w vm_name checkpoint_name = (True, w')"
  shows "map_of (files w') (joinpath (checkpoint_dir_of vm_name) ((''auto-'' @ now_stamp e) @ ''.qcow2'')) = Some c \<and>
         map_of (files w') (joinpath (checkpoint_dir_of vm_name) ((''auto-'' @ now_stamp e) @ ''.json'')) =
           Some (JsonObj [(''name'', ''auto-'' @ now_stamp e),
                          (''description'', ''Auto-saved before switch''),
                          (''created'', now_iso e)]) \<and>
         persistent_disk_path w' vm_name =
           Some (joinpath (checkpoint_dir_of vm_name) (checkpoint_name @ ''.qcow2''))"
proof -
  let ?dir = "checkpoint_dir_of vm_name"
  let ?tgt = "joinpath ?dir (checkpoint_name @ ''.qcow2'')"
  let ?auto = "''auto-'' @ now_stamp e"
  from assms(1,3) obtain disk_elem where d: "xsource (persistent domain) = Some disk_elem"
    "path_of (get_file disk_elem) = current_disk"
    by (auto simp: persistent_disk_path_def XMLDesc_INACTIVE_def)
  have par: "parent ?tgt = ?dir"
    using is_ext_qcow2 assms(6) by (rule parent_joinpath_safe)
  with assms(5) have ne: "current_disk \<noteq> ?tgt" by auto
  have src: "path_exists (files w) current_disk"
    using assms(4) by (simp add: path_exists_def)
  note dj = qcow2_neq_json [of ?dir ?auto]
  note rt = path_of_str_checkpoint_disk [of vm_name "checkpoint_name @ ''.qcow2''"]
  show ?thesis
    using assms(1,2,4,5,7,8) d ne src dj rt
    by (auto simp: switch_checkpoint_def auto_preserve_def copy2_def write_json_def defineXML_def
          persistent_disk_path_def XMLDesc_INACTIVE_def Let_def update_conv'
          split: if_splits io_result.splits option.splits define_result.splits)
qed

text \<open>
The scenario is an instance: switching \<^verbatim>\<open>alpha\<close> from its original disk
  to \<^verbatim>\<open>snap1\<close>.
\<close>

theorem switch_checkpoint_preserves_current_witness:
  "domains world1 ''alpha'' = Some \<lparr>persistent = alpha_xml, live = None\<rparr> \<and>
   xname (persistent \<lparr>persistent = alpha_xml, live = None\<rparr>) = ''alpha'' \<and>
   persistent_disk_path world1 ''alpha'' = Some (Path ''/'' [''disks'', ''alpha.qcow2'']) \<and>
   map_of (files world1) (Path ''/'' [''disks'', ''alpha.qcow2'']) = Some (Blob ''A'') \<and>
   parent (Path ''/'' [''disks'', ''alpha.qcow2'']) \<noteq> checkpoint_dir_of ''alpha'' \<and>
   CHR ''/'' \<notin> set ''snap1'' \<and>
   define_outcome env_ok \<noteq> Returns_None \<and>
   switch_checkpoint env_ok world1 ''alpha'' ''snap1'' = (True, world2) \<and>
   map_of (files world2)
     (joinpath (checkpoint_dir_of ''alpha'') ((''auto-'' @ now_stamp env_ok) @ ''.qcow2'')) =
     Some (Blob ''A'') \<and>
   map_of (files world2)
     (joinpath (checkpoint_dir_of ''alpha'') ((''auto-'' @ now_stamp env_ok) @ ''.json'')) =
     Some (JsonObj [(''name'', ''auto-'' @ now_stamp env_ok),
                    (''description'', ''Auto-saved before switch''),
                    (''created'', now_iso env_ok)]) \<and>
   persistent_disk_path world2 ''alpha'' =
     Some (joinpath (checkpoint_dir_of ''alpha'') (''snap1'' @ ''.qcow2''))"
proof -
  have h1: "domains world1 ''alpha'' = Some \<lparr>persistent = alpha_xml, live = None\<rparr>"
    by (simp add: domains_world1 world0_def)
  have h2: "xname (persistent \<lparr>persistent = alpha_xml, live = None\<rparr>) = ''alpha''"
    by (simp add: alpha_xml_def)
  have h4: "map_of (files world1) (Path ''/'' [''disks'', ''alpha.qcow2'']) = Some (Blob ''A'')"
    by (simp add: files_world1)
  have h5: "parent (Path ''/'' [''disks'', ''alpha.qcow2'']) \<noteq> checkpoint_dir_of ''alpha''"
    by (simp add: path_eval)
  have h6: "CHR ''/'' \<notin> set ''snap1''" by simp
  have h7: "define_outcome env_ok \<noteq> Returns_None" by (simp add: env_ok_def)
  from switch_checkpoint_preserves_current [OF h1 h2 world1_persistent h4 h5 h6 h7 switch_world1]
    h1 h2 world1_persistent h4 h5 h6 h7 switch_world1
  show ?thesis by blast
qed

text \<open>
  Claim C2 (no deletion of the active checkpoint), as the code has it. The refusal lives
  in the dialog: when the dialog shows a current listing and the entry under the cursor
  is the active checkpoint (its disk file is the VM's persistent disk path),
  \<^verbatim>\<open>_delete_checkpoint\<close> sets the status \<^verbatim>\<open>Cannot delete active checkpoint\<close>
  and returns without calling \<^verbatim>\<open>delete_checkpoint\<close>; the world, and with it both
  files of the checkpoint, is unchanged.
\<close>

theorem dialog_refuses_active_delete:
  assumes "checkpoints dlg = list_checkpoints reformat w vm_name"
    and "cursor_index dlg < length (checkpoints dlg)"
    and "checkpoints dlg ! cursor_index dlg = (name, created, flag)"
    and "persistent_disk_path w vm_name =
           Some (joinpath (checkpoint_dir_of vm_name) (name @ ''.qcow2''))"
  shows "ui_delete_checkpoint reformat e confirm snaps dlg w vm_name =
           (set_status dlg ''Cannot delete active checkpoint'' ''error'', w)"
proof -
  from assms(2,3) have "(name, created, flag) \<in> set (checkpoints dlg)"
    by (metis nth_mem)
  with assms(1) have "flag = (persistent_disk_path w vm_name =
                Some (joinpath (checkpoint_dir_of vm_name) (name @ ''.qcow2'')))"
    by (simp add: list_checkpoints_active_iff)
  with assms(4) have "flag" by simp
  with assms(2,3) show ?thesis
    by (auto simp: ui_delete_checkpoint_def)
qed

text \<open>
An instance: the dialog opened after the switch of the scenario, the cursor on
  \<^verbatim>\<open>snap1\<close>.
\<close>

theorem dialog_refuses_active_delete_witness:
  "checkpoints dialog_scn = list_checkpoints reformat_scn world2 ''alpha'' \<and>
   cursor_index dialog_scn < length (checkpoints dialog_scn) \<and>
   checkpoints dialog_scn ! cursor_index dialog_scn = (''snap1'', ''2026-01-01 12:00:00'', True) \<and>
   persistent_disk_path world2 ''alpha'' =
     Some (joinpath (checkpoint_dir_of ''alpha'') (''snap1'' @ ''.qcow2'')) \<and>
   ui_delete_checkpoint reformat_scn env_ok True [] dialog_scn world2 ''alpha'' =
     (set_status dialog_scn ''Cannot delete active checkpoint'' ''error'', world2)"
proof -
  have h1: "checkpoints dialog_scn = list_checkpoints reformat_scn world2 ''alpha''"
    by (simp add: dialog_scn_def)
  have h2: "cursor_index dialog_scn < length (checkpoints dialog_scn)"
    by (simp add: dialog_scn_def list_world2)
  have h3: "checkpoints dialog_scn ! cursor_index dialog_scn = (''snap1'', ''2026-01-01 12:00:00'', True)"
    by (simp add: dialog_scn_def list_world2)
  from dialog_refuses_active_delete [OF h1 h2 h3 world2_persistent] h1 h2 h3 world2_persistent
  show ?thesis by blast
qed

text \<open>
  \<^verbatim>\<open>LibvirtService.delete_checkpoint\<close> itself makes no such test. In the scenario
  \<^verbatim>\<open>snap1\<close> is active after the switch, and \<^verbatim>\<open>delete_checkpoint("alpha",
  "snap1")\<close> returns \<open>True\<close> with the disk file and the metadata file gone.
\<close>

theorem delete_checkpoint_deletes_active:
  "persistent_disk_path world2 ''alpha'' =
     Some (joinpath (checkpoint_dir_of ''alpha'') (''snap1'' @ ''.qcow2'')) \<and>
   path_exists (files world2) (joinpath (checkpoint_dir_of ''alpha'') (''snap1'' @ ''.qcow2'')) \<and>
   path_exists (files world2) (joinpath (checkpoint_dir_of ''alpha'') (''snap1'' @ ''.json'')) \<and>
   fst (delete_checkpoint env_ok world2 ''alpha'' ''snap1'') \<and>
   \<not> path_exists (files (snd (delete_checkpoint env_ok world2 ''alpha'' ''snap1'')))
        (joinpath (checkpoint_dir_of ''alpha'') (''snap1'' @ ''.qcow2'')) \<and>
   \<not> path_exists (files (snd (delete_checkpoint env_ok world2 ''alpha'' ''snap1'')))
        (joinpath (checkpoint_dir_of ''alpha'') (''snap1'' @ ''.json''))"
proof -
  have "fst (delete_checkpoint env_ok world2 ''alpha'' ''snap1'') \<and>
   \<not> path_exists (files (snd (delete_checkpoint env_ok world2 ''alpha'' ''snap1'')))
        (joinpath (checkpoint_dir_of ''alpha'') (''snap1'' @ ''.qcow2'')) \<and>
   \<not> path_exists (files (snd (delete_checkpoint env_ok world2 ''alpha'' ''snap1'')))
        (joinpath (checkpoint_dir_of ''alpha'') (''snap1'' @ ''.json''))"
    by (simp add: delete_checkpoint_def files_world2 files_world1 scn_eval)
  with world2_persistent world2_snap1_disk world2_snap1_meta show ?thesis by blast
qed

text \<open>
  Claim C3 (rollback of a failed promotion) fails on the code. In the scenario after
  \<^verbatim>\<open>create_checkpoint\<close>, \<^verbatim>\<open>snap1\<close> is listed and its disk exists; the disk
  of the new VM \<^verbatim>\<open>beta\<close> does not. When \<^verbatim>\<open>defineXML\<close> returns
  \<^verbatim>\<open>None\<close>, \<^verbatim>\<open>separate_checkpoint_to_vm\<close> moves the disk back, but the
  metadata file was already deleted, and \<^verbatim>\<open>list_checkpoints\<close> no longer reports
  the checkpoint. When \<^verbatim>\<open>defineXML\<close> raises \<^verbatim>\<open>libvirtError\<close>, which is how
  libvirt's binding reports a failure, the \<^verbatim>\<open>except\<close> clause returns
  \<open>False\<close> without moving anything back: the disk stays at the new VM's path.
\<close>

theorem separate_failure_loses_checkpoint:
  "list_checkpoints reformat_scn world1 ''alpha'' = [(''snap1'', ''2026-01-01 12:00:00'', False)] \<and>
   path_exists (files world1) (joinpath (checkpoint_dir_of ''alpha'') ''snap1.qcow2'') \<and>
   \<not> path_exists (files world1) (joinpath DISK_DIR ''beta.qcow2'') \<and>
   \<not> fst (separate_checkpoint_to_vm env_define_none world1 ''snap1'' ''beta'' ''alpha'') \<and>
   path_exists (files (snd (separate_checkpoint_to_vm env_define_none world1 ''snap1'' ''beta'' ''alpha'')))
     (joinpath (checkpoint_dir_of ''alpha'') ''snap1.qcow2'') \<and>
   \<not> path_exists (files (snd (separate_checkpoint_to_vm env_define_none world1 ''snap1'' ''beta'' ''alpha'')))
     (joinpath (checkpoint_dir_of ''alpha'') ''snap1.json'') \<and>
   list_checkpoints reformat_scn
     (snd (separate_checkpoint_to_vm env_define_none world1 ''snap1'' ''beta'' ''alpha'')) ''alpha'' = [] \<and>
   \<not> fst (separate_checkpoint_to_vm env_define_raises world1 ''snap1'' ''beta'' ''alpha'') \<and>
   \<not> path_exists (files (snd (separate_checkpoint_to_vm env_define_raises world1 ''snap1'' ''beta'' ''alpha'')))
     (joinpath (checkpoint_dir_of ''alpha'') ''snap1.qcow2'') \<and>
   path_exists (files (snd (separate_checkpoint_to_vm env_define_raises world1 ''snap1'' ''beta'' ''alpha'')))
     (joinpath DISK_DIR ''beta.qcow2'') \<and>
   list_checkpoints reformat_scn
     (snd (separate_checkpoint_to_vm env_define_raises world1 ''snap1'' ''beta'' ''alpha'')) ''alpha'' = []"
proof -
  have n: "files (snd (separate_checkpoint_to_vm env_define_none world1 ''snap1'' ''beta'' ''alpha'')) =
     [(Path ''/'' [''disks'', ''alpha.qcow2''], Blob ''A''),
      (Path ''/'' (parts alpha_dir @ [''snap1.qcow2'']), Blob ''A'')]"
    by (simp add: separate_checkpoint_to_vm_def env_define_none_def files_world1 domains_world1
          scn_eval)
  have nd: "domains (snd (separate_checkpoint_to_vm env_define_none world1 ''snap1'' ''beta'' ''alpha'')) =
     domains world0"
    by (simp add: separate_checkpoint_to_vm_def env_define_none_def files_world1 domains_world1
          scn_eval)
  have nf: "\<not> fst (separate_checkpoint_to_vm env_define_none world1 ''snap1'' ''beta'' ''alpha'')"
    by (simp add: separate_checkpoint_to_vm_def env_define_none_def files_world1 domains_world1
          scn_eval)
  have r: "files (snd (separate_checkpoint_to_vm env_define_raises world1 ''snap1'' ''beta'' ''alpha'')) =
     [(Path ''/'' [''disks'', ''alpha.qcow2''], Blob ''A''),
      (Path ''/'' (parts DISK_DIR @ [''beta.qcow2'']), Blob ''A'')]"
    by (simp add: separate_checkpoint_to_vm_def env_define_raises_def files_world1 domains_world1
          scn_eval)
  have rd: "domains (snd (separate_checkpoint_to_vm env_define_raises world1 ''snap1'' ''beta'' ''alpha'')) =
     domains world0"
    by (simp add: separate_checkpoint_to_vm_def env_define_raises_def files_world1 domains_world1
          scn_eval)
  have rf: "\<not> fst (separate_checkpoint_to_vm env_define_raises world1 ''snap1'' ''beta'' ''alpha'')"
    by (simp add: separate_checkpoint_to_vm_def env_define_raises_def files_world1 domains_world1
          scn_eval)
  have a: "path_exists (files world1) (joinpath (checkpoint_dir_of ''alpha'') ''snap1.qcow2'') \<and>
   \<not> path_exists (files world1) (joinpath DISK_DIR ''beta.qcow2'')"
    by (simp add: files_world1 scn_eval)
  have b: "path_exists (files (snd (separate_checkpoint_to_vm env_define_none world1 ''snap1'' ''beta'' ''alpha'')))
     (joinpath (checkpoint_dir_of ''alpha'') ''snap1.qcow2'') \<and>
   \<not> path_exists (files (snd (separate_checkpoint_to_vm env_define_none world1 ''snap1'' ''beta'' ''alpha'')))
     (joinpath (checkpoint_dir_of ''alpha'') ''snap1.json'')"
    by (simp add: n scn_eval)
  have c: "list_checkpoints reformat_scn
     (snd (separate_checkpoint_to_vm env_define_none world1 ''snap1'' ''beta'' ''alpha'')) ''alpha'' = []"
    by (simp add: list_checkpoints_def glob_json_def sort_newest_first_def n nd scn_eval)
  have d: "\<not> path_exists (files (snd (separate_checkpoint_to_vm env_define_raises world1 ''snap1'' ''beta'' ''alpha'')))
     (joinpath (checkpoint_dir_of ''alpha'') ''snap1.qcow2'') \<and>
   path_exists (files (snd (separate_checkpoint_to_vm env_define_raises world1 ''snap1'' ''beta'' ''alpha'')))
     (joinpath DISK_DIR ''beta.qcow2'')"
    by (simp add: r scn_eval)
  have e: "list_checkpoints reformat_scn
     (snd (separate_checkpoint_to_vm env_define_raises world1 ''snap1'' ''beta'' ''alpha'')) ''alpha'' = []"
    by (simp add: list_checkpoints_def glob_json_def sort_newest_first_def r rd scn_eval)
  from list_world1 a nf b c rf d e show ?thesis by blast
qed

text \<open>
  Claim C4 (at most one active). From a world in which the metadata of the VM's
  checkpoint directory is consistent (in particular from an empty or absent directory),
  after any sequence of \<^verbatim>\<open>create_checkpoint\<close> and \<^verbatim>\<open>switch_checkpoint\<close> calls
  on the VM, with any names and whatever the library calls do, \<^verbatim>\<open>list_checkpoints\<close>
  reports at most one entry whose \<^verbatim>\<open>is_active\<close> flag is true.
\<close>

theorem at_most_one_active:
  assumes "metadata_consistent (files w) (checkpoint_dir_of vm_name)"
  shows "length (filter is_active_entry
           (list_checkpoints reformat (run_ops vm_name w ops) vm_name)) \<le> 1"
  using assms by (intro consistent_one_active run_ops_consistent)

text \<open>
An instance: the two operations of the scenario, after which one of the two
  entries listed is active.
\<close>

theorem at_most_one_active_witness:
  "metadata_consistent (files world0) (checkpoint_dir_of ''alpha'') \<and>
   length (filter is_active_entry
     (list_checkpoints reformat_scn
        (run_ops ''alpha'' world0
           [(env_ok, Create ''snap1'' ''before upgrade''), (env_ok, Switch ''snap1'')])
        ''alpha'')) \<le> 1 \<and>
   list_checkpoints reformat_scn
        (run_ops ''alpha'' world0
           [(env_ok, Create ''snap1'' ''before upgrade''), (env_ok, Switch ''snap1'')])
        ''alpha'' =
     [(''snap1'', ''2026-01-01 12:00:00'', True),
      (''auto-20260101-120000'', ''2026-01-01 12:00:00'', False)]"
proof -
  have h: "metadata_consistent (files world0) (checkpoint_dir_of ''alpha'')"
    by (simp add: metadata_consistent_def glob_json_def world0_def path_eval)
  have l: "list_checkpoints reformat_scn
        (run_ops ''alpha'' world0
           [(env_ok, Create ''snap1'' ''before upgrade''), (env_ok, Switch ''snap1'')])
        ''alpha'' =
     [(''snap1'', ''2026-01-01 12:00:00'', True),
      (''auto-20260101-120000'', ''2026-01-01 12:00:00'', False)]"
    by (simp add: run_ops_scn list_world2)
  from at_most_one_active [OF h, of reformat_scn
      "[(env_ok, Create ''snap1'' ''before upgrade''), (env_ok, Switch ''snap1'')]"] h l
  show ?thesis by blast
qed

text \<open>
  Claim C5 (idempotent switch). When the VM's persistent disk path already is the disk
  file of the target checkpoint, which exists and whose name is a file name,
  \<^verbatim>\<open>switch_checkpoint\<close> returns \<open>True\<close> and leaves the world as it was: nothing is
  copied, no file is written and the persistent disk path is unchanged.
\<close>

theorem switch_checkpoint_idempotent:
  assumes "persistent_disk_path w vm_name =
             Some (joinpath (checkpoint_dir_of vm_name) (checkpoint_name @ ''.qcow2''))"
    and "path_exists (files w) (joinpath (checkpoint_dir_of vm_name) (checkpoint_name @ ''.qcow2''))"
    and "CHR ''/'' \<notin> set checkpoint_name"
  shows "switch_checkpoint e w vm_name checkpoint_name = (True, w)"
proof -
  from assms(1) obtain domain disk_elem where d: "domains w vm_name = Some domain"
    "xsource (persistent domain) = Some disk_elem"
    "path_of (get_file disk_elem) = joinpath (checkpoint_dir_of vm_name) (checkpoint_name @ ''.qcow2'')"
    by (rule persistent_disk_pathD)
  have "dir_exists (files w) (checkpoint_dir_of vm_name)"
    using assms(2) is_ext_qcow2 assms(3) by (rule dir_exists_safe)
  then have "mkdir_parents e (files w) (checkpoint_dir_of vm_name)"
    by (simp add: mkdir_parents_def)
  with d assms(2) show ?thesis
    by (simp add: switch_checkpoint_def XMLDesc_INACTIVE_def Let_def)
qed

text \<open>
An instance: switching to \<^verbatim>\<open>snap1\<close> a second time.
\<close>

theorem switch_checkpoint_idempotent_witness:
  "persistent_disk_path world2 ''alpha'' =
     Some (joinpath (checkpoint_dir_of ''alpha'') (''snap1'' @ ''.qcow2'')) \<and>
   path_exists (files world2) (joinpath (checkpoint_dir_of ''alpha'') (''snap1'' @ ''.qcow2'')) \<and>
   CHR ''/'' \<notin> set ''snap1'' \<and>
   switch_checkpoint env_ok world2 ''alpha'' ''snap1'' = (True, world2)"
proof -
  have h: "CHR ''/'' \<notin> set ''snap1''" by simp
  from switch_checkpoint_idempotent [OF world2_persistent world2_snap1_disk h]
    world2_persistent world2_snap1_disk h
  show ?thesis by blast
qed

text \<open>
  Claim C6 (abort before the rewrite). When \<^verbatim>\<open>switch_checkpoint\<close> reaches the
  step that saves the current disk (the current disk and the target exist and differ, the
  current disk is not directly in the checkpoint directory) and the copy does not return,
  the operation returns \<open>False\<close>, the VM definitions are untouched and the persistent
  disk path is what it was.
\<close>

theorem switch_checkpoint_copy_fails:
  assumes "persistent_disk_path w vm_name = Some current_disk"
    and "path_exists (files w) current_disk"
    and "mkdir_parents e (files w) (checkpoint_dir_of vm_name)"
    and "path_exists (files w) (joinpath (checkpoint_dir_of vm_name) (checkpoint_name @ ''.qcow2''))"
    and "current_disk \<noteq> joinpath (checkpoint_dir_of vm_name) (checkpoint_name @ ''.qcow2'')"
    and "parent current_disk \<noteq> checkpoint_dir_of vm_name"
    and "\<not> fst (copy2 (copy_result e) (files w) current_disk
                 (joinpath (checkpoint_dir_of vm_name) ((''auto-'' @ now_stamp e) @ ''.qcow2'')))"
  shows "\<not> fst (switch_checkpoint e w vm_name checkpoint_name) \<and>
         persistent_disk_path (snd (switch_checkpoint e w vm_name checkpoint_name)) vm_name =
           Some current_disk \<and>
         domains (snd (switch_checkpoint e w vm_name checkpoint_name)) = domains w"
proof -
  from assms(1) obtain domain disk_elem where d: "domains w vm_name = Some domain"
    "xsource (persistent domain) = Some disk_elem"
    "path_of (get_file disk_elem) = current_disk"
    by (rule persistent_disk_pathD)
  obtain fs1 where
    "copy2 (copy_result e) (files w) current_disk
       (joinpath (checkpoint_dir_of vm_name) ((''auto-'' @ now_stamp e) @ ''.qcow2'')) = (False, fs1)"
    using assms(7)
    by (cases "copy2 (copy_result e) (files w) current_disk
       (joinpath (checkpoint_dir_of vm_name) ((''auto-'' @ now_stamp e) @ ''.qcow2''))") auto
  with assms(1-6) d show ?thesis
    by (simp add: switch_checkpoint_def auto_preserve_def XMLDesc_INACTIVE_def Let_def
          persistent_disk_path_def)
qed

text \<open>
An instance: the switch of the scenario with a copy that breaks off.
\<close>

theorem switch_checkpoint_copy_fails_witness:
  "persistent_disk_path world1 ''alpha'' = Some (Path ''/'' [''disks'', ''alpha.qcow2'']) \<and>
   path_exists (files world1) (Path ''/'' [''disks'', ''alpha.qcow2'']) \<and>
   mkdir_parents env_copy_fails (files world1) (checkpoint_dir_of ''alpha'') \<and>
   path_exists (files world1) (joinpath (checkpoint_dir_of ''alpha'') (''snap1'' @ ''.qcow2'')) \<and>
   Path ''/'' [''disks'', ''alpha.qcow2''] \<noteq>
     joinpath (checkpoint_dir_of ''alpha'') (''snap1'' @ ''.qcow2'') \<and>
   parent (Path ''/'' [''disks'', ''alpha.qcow2'']) \<noteq> checkpoint_dir_of ''alpha'' \<and>
   \<not> fst (copy2 (copy_result env_copy_fails) (files world1) (Path ''/'' [''disks'', ''alpha.qcow2''])
            (joinpath (checkpoint_dir_of ''alpha'')
               ((''auto-'' @ now_stamp env_copy_fails) @ ''.qcow2''))) \<and>
   \<not> fst (switch_checkpoint env_copy_fails world1 ''alpha'' ''snap1'') \<and>
   persistent_disk_path (snd (switch_checkpoint env_copy_fails world1 ''alpha'' ''snap1'')) ''alpha'' =
     Some (Path ''/'' [''disks'', ''alpha.qcow2'']) \<and>
   domains (snd (switch_checkpoint env_copy_fails world1 ''alpha'' ''snap1'')) = domains world1"
proof -
  have h2: "path_exists (files world1) (Path ''/'' [''disks'', ''alpha.qcow2''])"
    by (simp add: files_world1 path_exists_def)
  have h3: "mkdir_parents env_copy_fails (files world1) (checkpoint_dir_of ''alpha'')"
    by (simp add: mkdir_parents_def env_copy_fails_def env_ok_def)
  have h5: "Path ''/'' [''disks'', ''alpha.qcow2''] \<noteq>
     joinpath (checkpoint_dir_of ''alpha'') (''snap1'' @ ''.qcow2'')"
    by (simp add: path_eval)
  have h6: "parent (Path ''/'' [''disks'', ''alpha.qcow2'']) \<noteq> checkpoint_dir_of ''alpha''"
    by (simp add: path_eval)
  have h7: "\<not> fst (copy2 (copy_result env_copy_fails) (files world1) (Path ''/'' [''disks'', ''alpha.qcow2''])
            (joinpath (checkpoint_dir_of ''alpha'')
               ((''auto-'' @ now_stamp env_copy_fails) @ ''.qcow2'')))"
    by (simp add: copy2_def env_copy_fails_def env_ok_def files_world1 path_eval)
  from switch_checkpoint_copy_fails [OF world1_persistent h2 h3 world1_snap1_disk h5 h6 h7]
    world1_persistent h2 h3 world1_snap1_disk h5 h6 h7
  show ?thesis by blast
qed

text \<open>
  Claim C7 (collision safety). When \<^verbatim>\<open>{checkpoint_name}.qcow2\<close> already exists in
  the VM's checkpoint directory, \<^verbatim>\<open>create_checkpoint\<close> returns \<open>False\<close> and leaves
  the world as it was: the existing disk file keeps its content and no metadata file is
  written.
\<close>

theorem create_checkpoint_collision:
  assumes "path_exists (files w) (joinpath (checkpoint_dir_of vm_name) (checkpoint_name @ ''.qcow2''))"
  shows "create_checkpoint e w vm_name checkpoint_name description = (False, w)"
  using assms by (simp add: create_checkpoint_def Let_def split: option.splits)

text \<open>
An instance: creating \<^verbatim>\<open>snap1\<close> a second time.
\<close>

theorem create_checkpoint_collision_witness:
  "path_exists (files world1) (joinpath (checkpoint_dir_of ''alpha'') (''snap1'' @ ''.qcow2'')) \<and>
   create_checkpoint env_ok world1 ''alpha'' ''snap1'' ''again'' = (False, world1)"
proof -
  have h: "path_exists (files world1) (joinpath (checkpoint_dir_of ''alpha'') (''snap1'' @ ''.qcow2''))"
    by (simp add: files_world1 alpha_dir_def path_eval io_eval)
  from create_checkpoint_collision [OF h] h show ?thesis by simp
qed

text \<open>
  Claim C8 (which configuration \<^verbatim>\<open>create_checkpoint\<close> reads), as the code has it.
  \<^verbatim>\<open>create_checkpoint\<close> calls \<^verbatim>\<open>XMLDesc()\<close> without flags: the disk it copies
  is the one named by the live definition when the VM is running, and by the persistent
  definition only when it is not. A successful call leaves the content of that disk in
  the checkpoint's disk file.
\<close>

theorem create_checkpoint_source:
  assumes "domains w vm_name = Some domain"
    and "create_checkpoint e w vm_name checkpoint_name description = (True, w')"
  shows "\<exists>disk_elem c.
           xsource (case live domain of Some running \<Rightarrow> running | None \<Rightarrow> persistent domain) =
             Some disk_elem \<and>
           map_of (files w) (path_of (get_file disk_elem)) = Some c \<and>
           map_of (files w') (joinpath (checkpoint_dir_of vm_name) (checkpoint_name @ ''.qcow2'')) =
             Some c"
  using assms qcow2_neq_json [of "checkpoint_dir_of vm_name" checkpoint_name]
  by (auto simp: create_checkpoint_def XMLDesc_def copy2_def write_json_def path_exists_def
        Let_def update_conv'
        split: option.splits if_splits prod.splits bool.splits io_result.splits)

text \<open>
An instance: \<^verbatim>\<open>alpha\<close> running on its original disk.
\<close>

theorem create_checkpoint_source_witness:
  "domains world_running ''alpha'' =
     Some \<lparr>persistent = alpha_xml\<lparr>xsource :=
             Some (Some ''/var/lib/libvirt/images/vms/disks/checkpoints/alpha/snap1.qcow2'')\<rparr>,
           live = Some alpha_xml\<rparr> \<and>
   create_checkpoint env_ok world_running ''alpha'' ''snap2'' ''second'' =
     (True, snd (create_checkpoint env_ok world_running ''alpha'' ''snap2'' ''second'')) \<and>
   (\<exists>disk_elem c.
      xsource alpha_xml = Some disk_elem \<and>
      map_of (files world_running) (path_of (get_file disk_elem)) = Some c \<and>
      map_of (files (snd (create_checkpoint env_ok world_running ''alpha'' ''snap2'' ''second'')))
        (joinpath (checkpoint_dir_of ''alpha'') (''snap2'' @ ''.qcow2'')) = Some c)"
proof -
  have h1: "domains world_running ''alpha'' =
     Some \<lparr>persistent = alpha_xml\<lparr>xsource :=
             Some (Some ''/var/lib/libvirt/images/vms/disks/checkpoints/alpha/snap1.qcow2'')\<rparr>,
           live = Some alpha_xml\<rparr>"
    by (simp add: world_running_def)
  have "fst (create_checkpoint env_ok world_running ''alpha'' ''snap2'' ''second'')"
    by (simp add: create_checkpoint_def world_running_def scn_eval)
  then have h2: "create_checkpoint env_ok world_running ''alpha'' ''snap2'' ''second'' =
     (True, snd (create_checkpoint env_ok world_running ''alpha'' ''snap2'' ''second''))"
    by (simp add: prod_eq_iff)
  from create_checkpoint_source [OF h1 h2] h1 h2 show ?thesis by simp
qed

text \<open>
  For a running VM this is not the view of \<^verbatim>\<open>list_checkpoints\<close> and
  \<^verbatim>\<open>switch_checkpoint\<close>. With \<^verbatim>\<open>alpha\<close> running on
  \<^verbatim>\<open>/disks/alpha.qcow2\<close> (content \<^verbatim>\<open>LIVE\<close>) and its persistent disk path at
  \<^verbatim>\<open>snap1.qcow2\<close> (content \<^verbatim>\<open>A\<close>), the new checkpoint holds
  \<^verbatim>\<open>LIVE\<close>, and its metadata records the live disk as \<^verbatim>\<open>original_disk\<close>.
\<close>

theorem create_checkpoint_copies_live_disk:
  "persistent_disk_path world_running ''alpha'' =
     Some (joinpath (checkpoint_dir_of ''alpha'') ''snap1.qcow2'') \<and>
   map_of (files world_running) (joinpath (checkpoint_dir_of ''alpha'') ''snap1.qcow2'') =
     Some (Blob ''A'') \<and>
   fst (create_checkpoint env_ok world_running ''alpha'' ''snap2'' ''second'') \<and>
   map_of (files (snd (create_checkpoint env_ok world_running ''alpha'' ''snap2'' ''second'')))
     (joinpath (checkpoint_dir_of ''alpha'') ''snap2.qcow2'') = Some (Blob ''LIVE'') \<and>
   map_of (files (snd (create_checkpoint env_ok world_running ''alpha'' ''snap2'' ''second'')))
     (joinpath (checkpoint_dir_of ''alpha'') ''snap2.json'') =
     Some (JsonObj [(''name'', ''snap2''), (''description'', ''second''),
                    (''created'', ''2026-01-01T12:00:00.000001''),
                    (''original_disk'', ''/disks/alpha.qcow2''), (''vm_name'', ''alpha'')])"
  by (simp add: create_checkpoint_def world_running_def scn_eval)

text \<open>
  Claim C9 (metadata schema), as the code has it. The metadata file that a successful
  \<^verbatim>\<open>create_checkpoint\<close> writes has the five fields \<^verbatim>\<open>name\<close>,
  \<^verbatim>\<open>description\<close>, \<^verbatim>\<open>created\<close> (the \<^verbatim>\<open>isoformat()\<close> of the clock),
  \<^verbatim>\<open>original_disk\<close> and \<^verbatim>\<open>vm_name\<close>. The one written by the step of
  \<^verbatim>\<open>switch_checkpoint\<close> that saves the current disk has the three fields
  \<^verbatim>\<open>name\<close>, \<^verbatim>\<open>description\<close> and \<^verbatim>\<open>created\<close>.
\<close>

theorem create_checkpoint_metadata_fields:
  "(create_checkpoint e w vm_name checkpoint_name description = (True, w') \<longrightarrow>
      (\<exists>disk. map_of (files w') (joinpath (checkpoint_dir_of vm_name) (checkpoint_name @ ''.json'')) =
         Some (JsonObj [(''name'', checkpoint_name), (''description'', description),
                        (''created'', now_iso e), (''original_disk'', disk),
                        (''vm_name'', vm_name)]))) \<and>
   (auto_preserve e fs checkpoint_dir current_disk = (True, fs') \<longrightarrow>
      map_of fs' (joinpath checkpoint_dir ((''auto-'' @ now_stamp e) @ ''.json'')) =
        Some (JsonObj [(''name'', ''auto-'' @ now_stamp e),
                       (''description'', ''Auto-saved before switch''),
                       (''created'', now_iso e)]))"
proof (intro conjI impI)
  assume "create_checkpoint e w vm_name checkpoint_name description = (True, w')"
  then show "\<exists>disk. map_of (files w') (joinpath (checkpoint_dir_of vm_name) (checkpoint_name @ ''.json'')) =
         Some (JsonObj [(''name'', checkpoint_name), (''description'', description),
                        (''created'', now_iso e), (''original_disk'', disk),
                        (''vm_name'', vm_name)])"
    by (auto simp: create_checkpoint_def write_json_def Let_def update_conv'
          split: option.splits if_splits prod.splits bool.splits io_result.splits)
next
  assume "auto_preserve e fs checkpoint_dir current_disk = (True, fs')"
  then show "map_of fs' (joinpath checkpoint_dir ((''auto-'' @ now_stamp e) @ ''.json'')) =
        Some (JsonObj [(''name'', ''auto-'' @ now_stamp e),
                       (''description'', ''Auto-saved before switch''),
                       (''created'', now_iso e)])"
    by (auto simp: auto_preserve_def write_json_def Let_def update_conv'
          split: option.splits if_splits prod.splits bool.splits io_result.splits)
qed

text \<open>
An instance: the two metadata files of the scenario.
\<close>

theorem create_checkpoint_metadata_fields_witness:
  "create_checkpoint env_ok world0 ''alpha'' ''snap1'' ''before upgrade'' = (True, world1) \<and>
   (\<exists>disk. map_of (files world1) (joinpath (checkpoint_dir_of ''alpha'') (''snap1'' @ ''.json'')) =
         Some (JsonObj [(''name'', ''snap1''), (''description'', ''before upgrade''),
                        (''created'', now_iso env_ok), (''original_disk'', disk),
                        (''vm_name'', ''alpha'')])) \<and>
   auto_preserve env_ok (files world1) (checkpoint_dir_of ''alpha'')
     (Path ''/'' [''disks'', ''alpha.qcow2'']) = (True, files world2) \<and>
   map_of (files world2)
     (joinpath (checkpoint_dir_of ''alpha'') ((''auto-'' @ now_stamp env_ok) @ ''.json'')) =
        Some (JsonObj [(''name'', ''auto-'' @ now_stamp env_ok),
                       (''description'', ''Auto-saved before switch''),
                       (''created'', now_iso env_ok)])"
  using create_checkpoint_metadata_fields
    [of env_ok world0 "''alpha''" "''snap1''" "''before upgrade''" world1
        "files world1" "checkpoint_dir_of ''alpha''" "Path ''/'' [''disks'', ''alpha.qcow2'']"
        "files world2"]
    create_world0 auto_preserve_world1
  by blast

text \<open>
  The automatic metadata of the scenario has neither \<^verbatim>\<open>original_disk\<close> nor
  \<^verbatim>\<open>vm_name\<close>.
\<close>

theorem auto_metadata_three_fields:
  "switch_checkpoint env_ok world1 ''alpha'' ''snap1'' = (True, world2) \<and>
   map_of (files world2) (joinpath (checkpoint_dir_of ''alpha'') ''auto-20260101-120000.json'') =
     Some (JsonObj [(''name'', ''auto-20260101-120000''),
                    (''description'', ''Auto-saved before switch''),
                    (''created'', ''2026-01-01T12:00:00.000001'')]) \<and>
   map_of [(''name'', ''auto-20260101-120000''),
           (''description'', ''Auto-saved before switch''),
           (''created'', ''2026-01-01T12:00:00.000001'')] ''original_disk'' = None \<and>
   map_of [(''name'', ''auto-20260101-120000''),
           (''description'', ''Auto-saved before switch''),
           (''created'', ''2026-01-01T12:00:00.000001'')] ''vm_name'' = None"
proof -
  have "map_of (files world2) (joinpath (checkpoint_dir_of ''alpha'') ''auto-20260101-120000.json'') =
     Some (JsonObj [(''name'', ''auto-20260101-120000''),
                    (''description'', ''Auto-saved before switch''),
                    (''created'', ''2026-01-01T12:00:00.000001'')])"
    by (simp add: files_world2 files_world1 scn_eval)
  with switch_world1 show ?thesis by simp
qed

text \<open>
  Claim C10 (orphaned metadata is overwritten). When \<^verbatim>\<open>{checkpoint_name}.json\<close>
  exists in the checkpoint directory but \<^verbatim>\<open>{checkpoint_name}.qcow2\<close> does not, the
  source disk exists, and neither the copy nor the write fails,
  \<^verbatim>\<open>create_checkpoint\<close> returns \<open>True\<close>; the metadata file then holds the new
  metadata, whatever it held before, and the checkpoint disk holds the content of the
  source disk. The checkpoint name is a file name.
\<close>

theorem create_checkpoint_orphan_metadata:
  assumes "domains w vm_name = Some domain"
    and "xsource (XMLDesc domain) = Some disk_elem"
    and "map_of (files w) (path_of (get_file disk_elem)) = Some c"
    and "map_of (files w) (joinpath (checkpoint_dir_of vm_name) (checkpoint_name @ ''.json'')) = Some old"
    and "\<not> path_exists (files w) (joinpath (checkpoint_dir_of vm_name) (checkpoint_name @ ''.qcow2''))"
    and "CHR ''/'' \<notin> set checkpoint_name"
    and "copy_result e = Completes"
    and "write_result e = Completes"
  shows "\<exists>w'. create_checkpoint e w vm_name checkpoint_name description = (True, w') \<and>
           map_of (files w') (joinpath (checkpoint_dir_of vm_name) (checkpoint_name @ ''.json'')) =
             Some (JsonObj [(''name'', checkpoint_name), (''description'', description),
                            (''created'', now_iso e),
                            (''original_disk'', path_str (path_of (get_file disk_elem))),
                            (''vm_name'', vm_name)]) \<and>
           map_of (files w') (joinpath (checkpoint_dir_of vm_name) (checkpoint_name @ ''.qcow2'')) = Some c"
proof -
  let ?dir = "checkpoint_dir_of vm_name"
  let ?src = "path_of (get_file disk_elem)"
  have "path_exists (files w) (joinpath ?dir (checkpoint_name @ ''.json''))"
    using assms(4) by (simp add: path_exists_def)
  then have "dir_exists (files w) ?dir"
    using is_ext_json assms(6) by (rule dir_exists_safe)
  then have mk: "mkdir_parents e (files w) ?dir"
    by (simp add: mkdir_parents_def)
  have src: "path_exists (files w) ?src"
    using assms(3) by (simp add: path_exists_def)
  have ne: "?src \<noteq> joinpath ?dir (checkpoint_name @ ''.qcow2'')"
    using assms(3,5) by (auto simp: path_exists_def)
  show ?thesis
    using assms(1,2,3,5,7,8) mk src ne qcow2_neq_json [of ?dir checkpoint_name]
    by (simp add: create_checkpoint_def copy2_def write_json_def Let_def update_conv')
qed

text \<open>
An instance: the world with the metadata file left behind.
\<close>

theorem create_checkpoint_orphan_metadata_witness:
  "domains world_orphan ''alpha'' = Some \<lparr>persistent = alpha_xml, live = None\<rparr> \<and>
   xsource (XMLDesc \<lparr>persistent = alpha_xml, live = None\<rparr>) = Some (Some ''/disks/alpha.qcow2'') \<and>
   map_of (files world_orphan) (path_of (get_file (Some ''/disks/alpha.qcow2''))) = Some (Blob ''A'') \<and>
   map_of (files world_orphan) (joinpath (checkpoint_dir_of ''alpha'') (''snap1'' @ ''.json'')) =
     Some (JsonObj [(''name'', ''snap1''), (''description'', ''left behind'')]) \<and>
   \<not> path_exists (files world_orphan) (joinpath (checkpoint_dir_of ''alpha'') (''snap1'' @ ''.qcow2'')) \<and>
   CHR ''/'' \<notin> set ''snap1'' \<and>
   copy_result env_ok = Completes \<and>
   write_result env_ok = Completes \<and>
   (\<exists>w'. create_checkpoint env_ok world_orphan ''alpha'' ''snap1'' ''again'' = (True, w') \<and>
      map_of (files w') (joinpath (checkpoint_dir_of ''alpha'') (''snap1'' @ ''.json'')) =
        Some (JsonObj [(''name'', ''snap1''), (''description'', ''again''),
                       (''created'', now_iso env_ok),
                       (''original_disk'', path_str (path_of (get_file (Some ''/disks/alpha.qcow2'')))),
                       (''vm_name'', ''alpha'')]) \<and>
      map_of (files w') (joinpath (checkpoint_dir_of ''alpha'') (''snap1'' @ ''.qcow2'')) =
        Some (Blob ''A''))"
proof -
  have h1: "domains world_orphan ''alpha'' = Some \<lparr>persistent = alpha_xml, live = None\<rparr>"
    by (simp add: world_orphan_def)
  have h2: "xsource (XMLDesc \<lparr>persistent = alpha_xml, live = None\<rparr>) = Some (Some ''/disks/alpha.qcow2'')"
    by (simp add: XMLDesc_def alpha_xml_def)
  have h3: "map_of (files world_orphan) (path_of (get_file (Some ''/disks/alpha.qcow2''))) = Some (Blob ''A'')"
    by (simp add: world_orphan_def path_eval)
  have h4: "map_of (files world_orphan) (joinpath (checkpoint_dir_of ''alpha'') (''snap1'' @ ''.json'')) =
     Some (JsonObj [(''name'', ''snap1''), (''description'', ''left behind'')])"
    by (simp add: world_orphan_def alpha_dir_def path_eval)
  have h5: "\<not> path_exists (files world_orphan) (joinpath (checkpoint_dir_of ''alpha'') (''snap1'' @ ''.qcow2''))"
    by (simp add: world_orphan_def alpha_dir_def path_eval path_exists_def)
  have h6: "CHR ''/'' \<notin> set ''snap1''" by simp
  have h7: "copy_result env_ok = Completes" by (simp add: env_ok_def)
  have h8: "write_result env_ok = Completes" by (simp add: env_ok_def)
  from create_checkpoint_orphan_metadata [OF h1 h2 h3 h4 h5 h6 h7 h8, of "''again''"]
    h1 h2 h3 h4 h5 h6 h7 h8
  show ?thesis by blast
qed

end
